theory Spec2Isabelle
  imports Main "HOL-Library.Sublist" "HOL-Library.Monad_Syntax"
begin

section \<open>Strings of the source language\<close>

text \<open>
  A string of the source is a sequence of UTF-16 code units. The model is over \<^typ>\<open>char\<close>,
  the code units 0 to 255; \<open>length\<close> counts code units as \<^verbatim>\<open>.length\<close> does.
  The built-ins the component calls are written out below on that alphabet.
\<close>

definition isWhiteSpace :: "char \<Rightarrow> bool" where
  \<comment> \<open>what \<^verbatim>\<open>String.prototype.trim\<close> strips: TAB, LF, VT, FF, CR, SP, NBSP\<close>
  "isWhiteSpace c = (c \<in> set [CHR 0x09, CHR 0x0A, CHR 0x0B, CHR 0x0C, CHR 0x0D, CHR 0x20, CHR 0xA0])"

definition trim :: "string \<Rightarrow> string" where
  "trim s = rev (dropWhile isWhiteSpace (rev (dropWhile isWhiteSpace s)))"

definition upperCaseLetters :: "string" where
  "upperCaseLetters = ''ABCDEFGHIJKLMNOPQRSTUVWXYZ'' @
     [CHR 0xC0, CHR 0xC1, CHR 0xC2, CHR 0xC3, CHR 0xC4, CHR 0xC5, CHR 0xC6, CHR 0xC7,
      CHR 0xC8, CHR 0xC9, CHR 0xCA, CHR 0xCB, CHR 0xCC, CHR 0xCD, CHR 0xCE, CHR 0xCF,
      CHR 0xD0, CHR 0xD1, CHR 0xD2, CHR 0xD3, CHR 0xD4, CHR 0xD5, CHR 0xD6,
      CHR 0xD8, CHR 0xD9, CHR 0xDA, CHR 0xDB, CHR 0xDC, CHR 0xDD, CHR 0xDE]"

definition lowerCaseLetters :: "string" where
  "lowerCaseLetters = ''abcdefghijklmnopqrstuvwxyz'' @
     [CHR 0xE0, CHR 0xE1, CHR 0xE2, CHR 0xE3, CHR 0xE4, CHR 0xE5, CHR 0xE6, CHR 0xE7,
      CHR 0xE8, CHR 0xE9, CHR 0xEA, CHR 0xEB, CHR 0xEC, CHR 0xED, CHR 0xEE, CHR 0xEF,
      CHR 0xF0, CHR 0xF1, CHR 0xF2, CHR 0xF3, CHR 0xF4, CHR 0xF5, CHR 0xF6,
      CHR 0xF8, CHR 0xF9, CHR 0xFA, CHR 0xFB, CHR 0xFC, CHR 0xFD, CHR 0xFE]"

definition toLowerChar :: "char \<Rightarrow> char" where
  "toLowerChar c =
     (case map_of (zip upperCaseLetters lowerCaseLetters) c of Some l \<Rightarrow> l | None \<Rightarrow> c)"

definition toLowerCase :: "string \<Rightarrow> string" where
  "toLowerCase s = map toLowerChar s"

fun includes_str :: "string \<Rightarrow> string \<Rightarrow> bool" where
  \<comment> \<open>\<^verbatim>\<open>s.includes(k)\<close>: \<open>k\<close> occurs in \<open>s\<close> at some position\<close>
  "includes_str [] k = (k = [])"
| "includes_str (c # cs) k = (prefix k (c # cs) \<or> includes_str cs k)"

fun join :: "string \<Rightarrow> string list \<Rightarrow> string" where
  \<comment> \<open>\<^verbatim>\<open>xs.join(sep)\<close>\<close>
  "join sep [] = []"
| "join sep [x] = x"
| "join sep (x # y # ys) = x @ sep @ join sep (y # ys)"

fun replaceFirst :: "char \<Rightarrow> char \<Rightarrow> string \<Rightarrow> string" where
  \<comment> \<open>\<^verbatim>\<open>s.replace(a, b)\<close> with a one-character string pattern: the first occurrence only\<close>
  "replaceFirst a b [] = []"
| "replaceFirst a b (c # cs) = (if c = a then b # cs else c # replaceFirst a b cs)"

definition slice_from_end :: "nat \<Rightarrow> 'a list \<Rightarrow> 'a list" where
  \<comment> \<open>\<^verbatim>\<open>xs.slice(-n)\<close>: starts at \<open>max (length xs - n) 0\<close>\<close>
  "slice_from_end n xs = drop (length xs - n) xs"

definition digitChar :: "nat \<Rightarrow> char" where
  "digitChar d = ''0123456789'' ! d"

fun toString :: "nat \<Rightarrow> string" where
  \<comment> \<open>\<^verbatim>\<open>Number.prototype.toString\<close> on a non-negative integer: its decimal digits\<close>
  "toString n = (if n < 10 then [digitChar n] else toString (n div 10) @ [digitChar (n mod 10)])"

declare toString.simps [simp del]

subsection \<open>The regular expressions of the Action Gate\<close>

definition isWordChar :: "char \<Rightarrow> bool" where
  \<comment> \<open>the class \<^verbatim>\<open>\w\<close>\<close>
  "isWordChar c =
     (c \<in> set ''ABCDEFGHIJKLMNOPQRSTUVWXYZabcdefghijklmnopqrstuvwxyz0123456789_'')"

definition isLineTerminator :: "char \<Rightarrow> bool" where
  \<comment> \<open>what \<^verbatim>\<open>.\<close> does not match (no \<^verbatim>\<open>s\<close> flag): LF and CR on this alphabet\<close>
  "isLineTerminator c = (c = CHR 0x0A \<or> c = CHR 0x0D)"

definition wordBoundary :: "string \<Rightarrow> string \<Rightarrow> bool" where
  \<comment> \<open>\<^verbatim>\<open>\b\<close> between the text left and the text right of the position\<close>
  "wordBoundary left right =
     ((left \<noteq> [] \<and> isWordChar (last left)) \<noteq> (right \<noteq> [] \<and> isWordChar (hd right)))"

definition testWords :: "string list \<Rightarrow> string \<Rightarrow> bool" where
  \<comment> \<open>\<^verbatim>\<open>/^(w1|w2|...)\b/.test(s)\<close>: some alternative is a prefix of \<open>s\<close> and ends at a word boundary\<close>
  "testWords alts s = list_ex (\<lambda>a. prefix a s \<and> wordBoundary a (drop (length a) s)) alts"

definition testShort :: "string \<Rightarrow> bool" where
  \<comment> \<open>\<^verbatim>\<open>/^.{1,20}$/.test(s)\<close>: the whole input is 1 to 20 characters that \<^verbatim>\<open>.\<close> matches\<close>
  "testShort s = (1 \<le> length s \<and> length s \<le> 20 \<and> list_all (\<lambda>c. \<not> isLineTerminator c) s)"

definition greetingWords :: "string list" where
  "greetingWords = [''hi'', ''hello'', ''hey'', ''good morning'', ''good afternoon'', ''good evening'']"

definition smallTalkWords :: "string list" where
  "smallTalkWords = [''how are you'', ''what's up'', ''what are you'', ''who are you'']"

definition acknowledgementWords :: "string list" where
  "acknowledgementWords = [''thanks'', ''thank you'', ''ok'', ''okay'', ''yes'', ''no'']"

definition simplePatterns :: "(string \<Rightarrow> bool) list" where
  "simplePatterns =
     [testWords greetingWords, testWords smallTalkWords, testWords acknowledgementWords, testShort]"

definition governmentKeywords :: "string list" where
  "governmentKeywords =
     [''government'', ''policy'', ''service'', ''department'', ''ministry'', ''public'',
      ''citizen'', ''administration'', ''regulation'', ''law'', ''budget'', ''project'',
      ''initiative'', ''reform'', ''development'', ''infrastructure'', ''governance'',
      ''flood'', ''disaster'', ''emergency'', ''monsoon'', ''pdma'', ''contingency'',
      ''preparedness'', ''response'', ''management'', ''kp'', ''khyber pakhtunkhwa'',
      ''chief secretary'', ''deputy commissioner'', ''district'', ''provincial'',
      ''planning'', ''coordination'', ''safety'', ''vulnerability'', ''assessment'',
      ''mitigation'', ''relief'', ''rehabilitation'', ''damage'', ''report'', ''advisory'']"

section \<open>Data model\<close>

record citation =
  cit_id :: string
  cit_title :: string
  cit_url :: string
  cit_snippet :: string

datatype role = User | Assistant

text \<open>An instant is a \<^verbatim>\<open>Date\<close> holding a time value: milliseconds since the epoch.\<close>

type_synonym instant = int

record chat_message =
  msg_id :: string
  msg_role :: role
  msg_content :: string
  msg_timestamp :: instant
  msg_sources :: "citation list option"

record chat_session =
  sess_id :: string
  sess_title :: string
  sess_messages :: "chat_message list"
  sess_createdAt :: instant

section \<open>Action Gate: \<^verbatim>\<open>isSimpleChat\<close>\<close>

definition recentUserTexts :: "chat_message list \<Rightarrow> string list" where
  "recentUserTexts msgs =
     (let userMessages = filter (\<lambda>msg. msg_role msg = User) msgs;
          recentUserMessages = slice_from_end 3 userMessages
      in map (\<lambda>msg. toLowerCase (msg_content msg)) recentUserMessages)"

definition hasSimpleContent :: "string list \<Rightarrow> bool" where
  "hasSimpleContent userMessageTexts =
     list_ex (\<lambda>msg. list_ex (\<lambda>pattern. pattern (trim msg)) simplePatterns) userMessageTexts"

definition hasGovernmentContent :: "string list \<Rightarrow> bool" where
  "hasGovernmentContent userMessageTexts =
     list_ex (\<lambda>msg. list_ex (\<lambda>keyword. includes_str msg keyword) governmentKeywords) userMessageTexts"

definition isDetailedRequest :: "string list \<Rightarrow> bool" where
  "isDetailedRequest userMessageTexts =
     (let userConversationText = join '' '' userMessageTexts
      in includes_str userConversationText ''detail'' \<or>
         includes_str userConversationText ''complete'' \<or>
         includes_str userConversationText ''comprehensive'' \<or>
         includes_str userConversationText ''analysis'' \<or>
         includes_str userConversationText ''insight'' \<or>
         includes_str userConversationText ''report'')"

definition isSimpleChat :: "chat_message list \<Rightarrow> bool" where
  "isSimpleChat msgs =
     (if length msgs = 0 then True
      else (let userMessageTexts = recentUserTexts msgs
            in hasSimpleContent userMessageTexts \<and>
               \<not> hasGovernmentContent userMessageTexts \<and>
               \<not> isDetailedRequest userMessageTexts))"

section \<open>Persistence: what \<^verbatim>\<open>JSON.stringify\<close> writes and the mount effect reads back\<close>

text \<open>
  The item stored under the key \<^verbatim>\<open>'chatSessions'\<close> is the text \<^verbatim>\<open>JSON.stringify(chatSessions)\<close>,
  read back with \<^verbatim>\<open>JSON.parse\<close>. The model keeps the JSON value that text denotes: objects with
  their properties in order, arrays and strings. A \<^verbatim>\<open>Date\<close> is written by its \<^verbatim>\<open>toJSON\<close>, that is
  \<^verbatim>\<open>toISOString\<close>; a property whose value is \<^verbatim>\<open>undefined\<close> is left out.
\<close>

datatype json = JNull | JString string | JArray "json list" | JObject "(string \<times> json) list"

definition pad :: "nat \<Rightarrow> nat \<Rightarrow> string" where
  \<comment> \<open>decimal digits, zero-padded on the left to the given width\<close>
  "pad width n = replicate (width - length (toString n)) (CHR ''0'') @ toString n"

definition civil_from_days :: "int \<Rightarrow> int \<times> nat \<times> nat" where
  \<comment> \<open>year, month and day of the proleptic Gregorian calendar, from days since 1970-01-01\<close>
  "civil_from_days day =
     (let z = day + 719468;
          era = z div 146097;
          doe = z mod 146097;
          yoe = (doe - doe div 1460 + doe div 36524 - doe div 146096) div 365;
          y = yoe + era * 400;
          doy = doe - (365 * yoe + yoe div 4 - yoe div 100);
          mp = (5 * doy + 2) div 153;
          d = doy - (153 * mp + 2) div 5 + 1;
          m = (if mp < 10 then mp + 3 else mp - 9)
      in (if m \<le> 2 then y + 1 else y, nat m, nat d))"

definition toISOString :: "instant \<Rightarrow> string" where
  \<comment> \<open>\<^verbatim>\<open>Date.prototype.toISOString\<close>: \<^verbatim>\<open>YYYY-MM-DDTHH:mm:ss.sssZ\<close>, the year as
      \<^verbatim>\<open>\<plusminus>YYYYYY\<close> outside 0 to 9999\<close>
  "toISOString t =
     (let msInDay = nat (t mod 86400000);
          (year, month, day) = civil_from_days (t div 86400000);
          yyyy = (if 0 \<le> year \<and> year \<le> 9999 then pad 4 (nat year)
                  else (if year < 0 then ''-'' else ''+'') @ pad 6 (nat \<bar>year\<bar>))
      in yyyy @ ''-'' @ pad 2 month @ ''-'' @ pad 2 day @ ''T'' @
         pad 2 (msInDay div 3600000) @ '':'' @ pad 2 (msInDay div 60000 mod 60) @ '':'' @
         pad 2 (msInDay div 1000 mod 60) @ ''.'' @ pad 3 (msInDay mod 1000) @ ''Z'')"

definition citation_toJSON :: "citation \<Rightarrow> json" where
  "citation_toJSON c =
     JObject [(''id'', JString (cit_id c)), (''title'', JString (cit_title c)),
              (''url'', JString (cit_url c)), (''snippet'', JString (cit_snippet c))]"

definition role_toJSON :: "role \<Rightarrow> json" where
  "role_toJSON r = (case r of User \<Rightarrow> JString ''user'' | Assistant \<Rightarrow> JString ''assistant'')"

definition message_toJSON :: "chat_message \<Rightarrow> json" where
  "message_toJSON m =
     JObject ([(''id'', JString (msg_id m)), (''role'', role_toJSON (msg_role m)),
               (''content'', JString (msg_content m)),
               (''timestamp'', JString (toISOString (msg_timestamp m)))] @
              (case msg_sources m of
                 None \<Rightarrow> []
               | Some cs \<Rightarrow> [(''sources'', JArray (map citation_toJSON cs))]))"

definition session_toJSON :: "chat_session \<Rightarrow> json" where
  "session_toJSON s =
     JObject [(''id'', JString (sess_id s)), (''title'', JString (sess_title s)),
              (''messages'', JArray (map message_toJSON (sess_messages s))),
              (''createdAt'', JString (toISOString (sess_createdAt s)))]"

definition JSON_stringify :: "chat_session list \<Rightarrow> json" where
  "JSON_stringify sessions = JArray (map session_toJSON sessions)"

text \<open>
  Reading back. \<^verbatim>\<open>new Date(string)\<close> is a built-in of the platform: its parser is the parameter
  \<open>parseDate\<close>, \<open>None\<close> for a string it does not accept. The loader returns \<open>None\<close> where the
  stored value does not have the shape of a \<^verbatim>\<open>ChatSession[]\<close>: there the source raises
  (\<^verbatim>\<open>.map\<close> of a non-array) or builds values outside the declared types.
\<close>

fun field :: "string \<Rightarrow> json \<Rightarrow> json option" where
  "field k (JObject kvs) = map_of kvs k"
| "field k _ = None"

fun asString :: "json \<Rightarrow> string option" where
  "asString (JString s) = Some s"
| "asString _ = None"

fun asArray :: "json \<Rightarrow> json list option" where
  "asArray (JArray xs) = Some xs"
| "asArray _ = None"

definition newDate :: "(string \<Rightarrow> instant option) \<Rightarrow> json \<Rightarrow> instant option" where
  "newDate parseDate j = (case j of JString s \<Rightarrow> parseDate s | _ \<Rightarrow> None)"

definition citation_fromJSON :: "json \<Rightarrow> citation option" where
  "citation_fromJSON j = do {
     i \<leftarrow> Option.bind (field ''id'' j) asString;
     t \<leftarrow> Option.bind (field ''title'' j) asString;
     u \<leftarrow> Option.bind (field ''url'' j) asString;
     n \<leftarrow> Option.bind (field ''snippet'' j) asString;
     Some \<lparr>cit_id = i, cit_title = t, cit_url = u, cit_snippet = n\<rparr> }"

definition role_fromJSON :: "json \<Rightarrow> role option" where
  "role_fromJSON j =
     (if j = JString ''user'' then Some User
      else if j = JString ''assistant'' then Some Assistant else None)"

definition sources_fromJSON :: "json \<Rightarrow> citation list option option" where
  "sources_fromJSON j =
     (case field ''sources'' j of
        None \<Rightarrow> Some None
      | Some sj \<Rightarrow> do { xs \<leftarrow> asArray sj; cs \<leftarrow> those (map citation_fromJSON xs); Some (Some cs) })"

definition message_revive :: "(string \<Rightarrow> instant option) \<Rightarrow> json \<Rightarrow> chat_message option" where
  \<comment> \<open>\<^verbatim>\<open>{...msg, timestamp: new Date(msg.timestamp)}\<close>\<close>
  "message_revive parseDate j = do {
     i \<leftarrow> Option.bind (field ''id'' j) asString;
     r \<leftarrow> Option.bind (field ''role'' j) role_fromJSON;
     c \<leftarrow> Option.bind (field ''content'' j) asString;
     t \<leftarrow> Option.bind (field ''timestamp'' j) (newDate parseDate);
     s \<leftarrow> sources_fromJSON j;
     Some \<lparr>msg_id = i, msg_role = r, msg_content = c, msg_timestamp = t, msg_sources = s\<rparr> }"

definition session_revive :: "(string \<Rightarrow> instant option) \<Rightarrow> json \<Rightarrow> chat_session option" where
  \<comment> \<open>\<^verbatim>\<open>{...session, createdAt: new Date(session.createdAt), messages: session.messages.map(...)}\<close>\<close>
  "session_revive parseDate j = do {
     i \<leftarrow> Option.bind (field ''id'' j) asString;
     t \<leftarrow> Option.bind (field ''title'' j) asString;
     ms \<leftarrow> Option.bind (field ''messages'' j) asArray;
     msgs \<leftarrow> those (map (message_revive parseDate) ms);
     d \<leftarrow> Option.bind (field ''createdAt'' j) (newDate parseDate);
     Some \<lparr>sess_id = i, sess_title = t, sess_messages = msgs, sess_createdAt = d\<rparr> }"

definition loadSessions :: "(string \<Rightarrow> instant option) \<Rightarrow> json \<Rightarrow> chat_session list option" where
  \<comment> \<open>\<^verbatim>\<open>JSON.parse(savedSessions).map(session => ...)\<close>\<close>
  "loadSessions parseDate saved = do {
     xs \<leftarrow> asArray saved;
     those (map (session_revive parseDate) xs) }"

section \<open>The component \<^verbatim>\<open>ChatBotUi\<close>\<close>

text \<open>
  The state of the component (its \<^verbatim>\<open>useState\<close> cells, without the sidebar flag that only the view
  reads), the item of local storage, and the remote calls that were issued and have not settled.
\<close>

record chat_response =
  resp_answer :: string
  resp_documents_retrieved :: int
  resp_sources :: "citation list option"

datatype 'a settled = Fulfilled 'a | Rejected

datatype remote_call =
    ChatCall string "chat_message list"
  | ActionCall string string string

record world =
  messages :: "chat_message list"
  inputValue :: string
  isLoading :: bool
  chatSessions :: "chat_session list"
  currentSessionId :: "string option"
  editingSessionId :: "string option"
  editingTitle :: string
  deleteDialogOpen :: bool
  sessionToDelete :: "string option"
  localStorage :: "json option"
  inflight :: "remote_call list"

definition truthy :: "string option \<Rightarrow> bool" where
  \<comment> \<open>a \<^verbatim>\<open>string | null\<close> in a condition: neither \<^verbatim>\<open>null\<close> nor the empty string\<close>
  "truthy x = (case x of None \<Rightarrow> False | Some s \<Rightarrow> s \<noteq> [])"

definition initialWorld :: "json option \<Rightarrow> world" where
  "initialWorld saved =
     \<lparr>messages = [], inputValue = [], isLoading = False, chatSessions = [],
      currentSessionId = None, editingSessionId = None, editingTitle = [],
      deleteDialogOpen = False, sessionToDelete = None, localStorage = saved, inflight = []\<rparr>"

subsection \<open>Effects\<close>

definition saveEffect :: "world \<Rightarrow> world" where
  \<comment> \<open>the effect on \<^verbatim>\<open>[chatSessions]\<close>\<close>
  "saveEffect w =
     (if length (chatSessions w) > 0
      then w\<lparr>localStorage := Some (JSON_stringify (chatSessions w))\<rparr>
      else w)"

definition syncCondition :: "world \<Rightarrow> bool" where
  "syncCondition w = (truthy (currentSessionId w) \<and> length (messages w) > 0)"

definition syncEffect :: "world \<Rightarrow> world" where
  \<comment> \<open>the effect on \<^verbatim>\<open>[messages, currentSessionId]\<close>, under its condition\<close>
  "syncEffect w =
     w\<lparr>chatSessions :=
         map (\<lambda>session. if Some (sess_id session) = currentSessionId w
                         then session\<lparr>sess_messages := messages w\<rparr>
                         else session)
             (chatSessions w)\<rparr>"

text \<open>
  After a handler, the effects whose dependencies it has set run in the order of their declaration:
  the save effect when the handler has set \<^verbatim>\<open>chatSessions\<close>, then the reflection of the displayed
  messages into the active session when it has set \<^verbatim>\<open>messages\<close> or \<^verbatim>\<open>currentSessionId\<close>. That second
  effect sets \<^verbatim>\<open>chatSessions\<close> itself, so the save effect runs once more after it.
\<close>

definition commit :: "bool \<Rightarrow> bool \<Rightarrow> world \<Rightarrow> world" where
  "commit sessionsSet messagesSet w =
     (let w1 = (if sessionsSet then saveEffect w else w)
      in if messagesSet \<and> syncCondition w1 then saveEffect (syncEffect w1) else w1)"

definition mount :: "(string \<Rightarrow> instant option) \<Rightarrow> json option \<Rightarrow> world option" where
  \<comment> \<open>the first render and the load effect\<close>
  "mount parseDate saved =
     (case saved of
        None \<Rightarrow> Some (initialWorld saved)
      | Some savedSessions \<Rightarrow>
          (case loadSessions parseDate savedSessions of
             None \<Rightarrow> None
           | Some sessions \<Rightarrow>
               Some (commit True False ((initialWorld saved)\<lparr>chatSessions := sessions\<rparr>))))"

subsection \<open>\<^verbatim>\<open>handleSendMessage\<close>\<close>

definition sendText :: "string option \<Rightarrow> world \<Rightarrow> string" where
  \<comment> \<open>\<^verbatim>\<open>messageText || inputValue.trim()\<close>\<close>
  "sendText messageText w =
     (case messageText of
        None \<Rightarrow> trim (inputValue w)
      | Some m \<Rightarrow> if m \<noteq> [] then m else trim (inputValue w))"

definition newSession :: "string \<Rightarrow> nat \<Rightarrow> chat_session" where
  "newSession text now =
     \<lparr>sess_id = toString now,
      sess_title = take 30 text @ (if length text > 30 then ''...'' else []),
      sess_messages = [],
      sess_createdAt = int now\<rparr>"

definition userMessage :: "string \<Rightarrow> nat \<Rightarrow> chat_message" where
  "userMessage text now =
     \<lparr>msg_id = toString now, msg_role = User, msg_content = text,
      msg_timestamp = int now, msg_sources = None\<rparr>"

text \<open>
  The handler up to its \<^verbatim>\<open>await\<close>. \<open>now\<close> is what \<^verbatim>\<open>Date.now()\<close> returns while it runs.
\<close>

definition handleSendMessage :: "string option \<Rightarrow> nat \<Rightarrow> world \<Rightarrow> world" where
  "handleSendMessage messageText now w =
     (let text = sendText messageText w in
      if text = [] \<or> isLoading w then w
      else
        (let w1 = (if \<not> truthy (currentSessionId w)
                   then w\<lparr>chatSessions := newSession text now # chatSessions w,
                          currentSessionId := Some (toString now)\<rparr>
                   else w)
         in w1\<lparr>messages := messages w @ [userMessage text now],
                inputValue := [],
                isLoading := True,
                inflight := inflight w @ [ChatCall text (messages w)]\<rparr>))"

definition assistantMessage :: "chat_response \<Rightarrow> nat \<Rightarrow> chat_message" where
  "assistantMessage response now =
     \<lparr>msg_id = toString (now + 1), msg_role = Assistant, msg_content = resp_answer response,
      msg_timestamp = int now, msg_sources = resp_sources response\<rparr>"

definition errorMessage :: "nat \<Rightarrow> chat_message" where
  "errorMessage now =
     \<lparr>msg_id = toString (now + 1), msg_role = Assistant,
      msg_content = ''I apologize for the technical difficulty. Please try again.'',
      msg_timestamp = int now, msg_sources = None\<rparr>"

text \<open>The rest of the handler, once the awaited call has settled at time \<open>now\<close>.\<close>

definition handleSendMessage_settled :: "chat_response settled \<Rightarrow> nat \<Rightarrow> world \<Rightarrow> world" where
  "handleSendMessage_settled result now w =
     (case result of
        Fulfilled response \<Rightarrow>
          w\<lparr>messages := messages w @ [assistantMessage response now], isLoading := False\<rparr>
      | Rejected \<Rightarrow>
          w\<lparr>messages := messages w @ [errorMessage now], isLoading := False\<rparr>)"

subsection \<open>\<^verbatim>\<open>handleActionResponse\<close>\<close>

definition insufficientDataMessage :: "string \<Rightarrow> nat \<Rightarrow> chat_message" where
  "insufficientDataMessage action now =
     \<lparr>msg_id = toString now, msg_role = Assistant,
      msg_content =
        ''I don't have enough specific government or policy-related information in our conversation to provide a meaningful '' @
        replaceFirst (CHR ''_'') (CHR '' '') action @
        '' analysis. Please share more details about a specific government service, policy, or initiative you'd like me to analyze, and I'll be happy to help with a detailed '' @
        replaceFirst (CHR ''_'') (CHR '' '') action @ ''.'',
      msg_timestamp = int now, msg_sources = None\<rparr>"

definition handleActionResponse :: "string \<Rightarrow> string \<Rightarrow> nat \<Rightarrow> world \<Rightarrow> world" where
  "handleActionResponse action originalMessage now w =
     (if isSimpleChat (messages w)
      then w\<lparr>messages := messages w @ [insufficientDataMessage action now], isLoading := False\<rparr>
      else w\<lparr>isLoading := True,
             inflight := inflight w @
               [ActionCall action originalMessage (join [CHR 0x0A] (map msg_content (messages w)))]\<rparr>)"

definition actionMessage :: "string \<Rightarrow> nat \<Rightarrow> chat_message" where
  "actionMessage response now =
     \<lparr>msg_id = toString now, msg_role = Assistant, msg_content = response,
      msg_timestamp = int now, msg_sources = None\<rparr>"

definition actionErrorMessage :: "nat \<Rightarrow> chat_message" where
  "actionErrorMessage now =
     \<lparr>msg_id = toString now, msg_role = Assistant,
      msg_content =
        ''I apologize for the technical difficulty with the specialized analysis. Please try again.'',
      msg_timestamp = int now, msg_sources = None\<rparr>"

definition handleActionResponse_settled :: "string settled \<Rightarrow> nat \<Rightarrow> world \<Rightarrow> world" where
  "handleActionResponse_settled result now w =
     (case result of
        Fulfilled response \<Rightarrow>
          w\<lparr>messages := messages w @ [actionMessage response now], isLoading := False\<rparr>
      | Rejected \<Rightarrow>
          w\<lparr>messages := messages w @ [actionErrorMessage now], isLoading := False\<rparr>)"

subsection \<open>Session list handlers\<close>

definition handleDeleteSession :: "string \<Rightarrow> world \<Rightarrow> world" where
  "handleDeleteSession sessionId w = w\<lparr>sessionToDelete := Some sessionId, deleteDialogOpen := True\<rparr>"

definition confirmDeleteSession :: "world \<Rightarrow> world" where
  "confirmDeleteSession w =
     (if truthy (sessionToDelete w)
      then
        (let w1 = w\<lparr>chatSessions :=
                      filter (\<lambda>session. Some (sess_id session) \<noteq> sessionToDelete w) (chatSessions w)\<rparr>;
             w2 = (if currentSessionId w = sessionToDelete w
                   then w1\<lparr>messages := [], currentSessionId := None\<rparr>
                   else w1)
         in w2\<lparr>deleteDialogOpen := False, sessionToDelete := None\<rparr>)
      else w)"

definition cancelDelete :: "world \<Rightarrow> world" where
  \<comment> \<open>the Cancel button and the dialog's \<^verbatim>\<open>onOpenChange\<close>\<close>
  "cancelDelete w = w\<lparr>deleteDialogOpen := False\<rparr>"

definition handleStartEdit :: "string \<Rightarrow> string \<Rightarrow> world \<Rightarrow> world" where
  "handleStartEdit sessionId currentTitle w =
     w\<lparr>editingSessionId := Some sessionId, editingTitle := currentTitle\<rparr>"

definition handleSaveEdit :: "string \<Rightarrow> world \<Rightarrow> world" where
  "handleSaveEdit sessionId w =
     (let w1 = (if trim (editingTitle w) \<noteq> []
                then w\<lparr>chatSessions :=
                         map (\<lambda>session. if sess_id session = sessionId
                                         then session\<lparr>sess_title := trim (editingTitle w)\<rparr>
                                         else session)
                             (chatSessions w)\<rparr>
                else w)
      in w1\<lparr>editingSessionId := None, editingTitle := []\<rparr>)"

definition handleCancelEdit :: "world \<Rightarrow> world" where
  "handleCancelEdit w = w\<lparr>editingSessionId := None, editingTitle := []\<rparr>"

definition handleReturnHome :: "world \<Rightarrow> world" where
  \<comment> \<open>also the body of the New Chat button\<close>
  "handleReturnHome w = w\<lparr>messages := [], currentSessionId := None\<rparr>"

definition selectable :: "nat \<Rightarrow> world \<Rightarrow> bool" where
  "selectable i w =
     (i < length (chatSessions w) \<and> editingSessionId w \<noteq> Some (sess_id (chatSessions w ! i)))"

definition selectSession :: "nat \<Rightarrow> world \<Rightarrow> world" where
  \<comment> \<open>the click on the \<open>i\<close>-th entry of the session list\<close>
  "selectSession i w =
     (if selectable i w
      then w\<lparr>currentSessionId := Some (sess_id (chatSessions w ! i)),
             messages := sess_messages (chatSessions w ! i)\<rparr>
      else w)"

subsection \<open>Events\<close>

datatype event =
    InputChange string
  | SendMessage "string option" nat
  | ChatSettled nat "chat_response settled" nat
  | ActionClick string string nat
  | ActionSettled nat "string settled" nat
  | SelectSession nat
  | ReturnHome
  | StartEdit string string
  | TitleChange string
  | SaveEdit string
  | CancelEdit
  | RequestDelete string
  | CancelDelete
  | ConfirmDelete

fun isChatCall :: "remote_call \<Rightarrow> bool" where
  "isChatCall (ChatCall _ _) = True"
| "isChatCall (ActionCall _ _ _) = False"

definition settle :: "nat \<Rightarrow> world \<Rightarrow> world" where
  \<comment> \<open>the \<open>i\<close>-th pending call is no longer pending\<close>
  "settle i w = w\<lparr>inflight := take i (inflight w) @ drop (Suc i) (inflight w)\<rparr>"

text \<open>
  One event: the handler, then the effects of the state it has set. A settlement event names the
  pending call by its position; it is ignored when no such call is pending.
\<close>

fun step :: "event \<Rightarrow> world \<Rightarrow> world" where
  "step (InputChange v) w = w\<lparr>inputValue := v\<rparr>"
| "step (SendMessage messageText now) w =
     (if sendText messageText w = [] \<or> isLoading w then w
      else commit (\<not> truthy (currentSessionId w)) True (handleSendMessage messageText now w))"
| "step (ChatSettled i result now) w =
     (if i < length (inflight w) \<and> isChatCall (inflight w ! i)
      then commit False True (handleSendMessage_settled result now (settle i w))
      else w)"
| "step (ActionClick action originalMessage now) w =
     commit False (isSimpleChat (messages w)) (handleActionResponse action originalMessage now w)"
| "step (ActionSettled i result now) w =
     (if i < length (inflight w) \<and> \<not> isChatCall (inflight w ! i)
      then commit False True (handleActionResponse_settled result now (settle i w))
      else w)"
| "step (SelectSession i) w = commit False (selectable i w) (selectSession i w)"
| "step ReturnHome w = commit False True (handleReturnHome w)"
| "step (StartEdit sessionId currentTitle) w = handleStartEdit sessionId currentTitle w"
| "step (TitleChange v) w = w\<lparr>editingTitle := v\<rparr>"
| "step (SaveEdit sessionId) w =
     commit (trim (editingTitle w) \<noteq> []) False (handleSaveEdit sessionId w)"
| "step CancelEdit w = handleCancelEdit w"
| "step (RequestDelete sessionId) w = handleDeleteSession sessionId w"
| "step CancelDelete w = cancelDelete w"
| "step ConfirmDelete w =
     commit (truthy (sessionToDelete w))
            (truthy (sessionToDelete w) \<and> currentSessionId w = sessionToDelete w)
            (confirmDeleteSession w)"

definition run :: "event list \<Rightarrow> world \<Rightarrow> world" where
  "run events w = foldl (\<lambda>w e. step e w) w events"

section \<open>The Action Gate as the specification words it\<close>

text \<open>
  The decision stated over the history, without the program's intermediate lists: the texts
  selected, what it is for a text to start with one of the words of the three anchored patterns,
  and the decision in two wordings. \<open>claimed_insufficient\<close> follows the sentence of the
  specification: a short text is one of 1 to 20 characters after trimming, and the detail words
  are looked for in the concatenation of the selected texts. \<open>amended_insufficient\<close> differs in
  one place, where the program is designed otherwise: the selected texts are joined by single
  spaces. \<open>singleLine\<close> says that no selected text has a line terminator inside its trimmed
  text.
\<close>

definition detailWords :: "string list" where
  "detailWords = [''detail'', ''complete'', ''comprehensive'', ''analysis'', ''insight'', ''report'']"

definition lastUserMessages :: "nat \<Rightarrow> chat_message list \<Rightarrow> chat_message list" where
  "lastUserMessages n msgs = rev (take n (rev (filter (\<lambda>m. msg_role m = User) msgs)))"

definition selectedTexts :: "chat_message list \<Rightarrow> string list" where
  "selectedTexts msgs = map (\<lambda>m. toLowerCase (msg_content m)) (lastUserMessages 3 msgs)"

definition startsWithWord :: "string \<Rightarrow> string \<Rightarrow> bool" where
  \<comment> \<open>\<open>t\<close> begins with the word \<open>w\<close>, and the word ends there: no word character follows\<close>
  "startsWithWord t w = (prefix w t \<and> (length t = length w \<or> \<not> isWordChar (t ! length w)))"

definition matchesGreetingPrefix :: "string \<Rightarrow> bool" where
  "matchesGreetingPrefix t =
     (\<exists>w \<in> set (greetingWords @ smallTalkWords @ acknowledgementWords). startsWithWord t w)"

definition claimed_insufficient :: "chat_message list \<Rightarrow> bool" where
  "claimed_insufficient msgs =
     (msgs = [] \<or>
      (let sel = selectedTexts msgs in
         (\<exists>t \<in> set sel. matchesGreetingPrefix (trim t) \<or>
            (1 \<le> length (trim t) \<and> length (trim t) \<le> 20)) \<and>
         (\<forall>t \<in> set sel. \<forall>k \<in> set governmentKeywords. \<not> sublist k t) \<and>
         (\<forall>d \<in> set detailWords. \<not> sublist d (concat sel))))"

definition amended_insufficient :: "chat_message list \<Rightarrow> bool" where
  "amended_insufficient msgs =
     (msgs = [] \<or>
      (let sel = selectedTexts msgs in
         (\<exists>t \<in> set sel. matchesGreetingPrefix (trim t) \<or>
            (1 \<le> length (trim t) \<and> length (trim t) \<le> 20)) \<and>
         (\<forall>t \<in> set sel. \<forall>k \<in> set governmentKeywords. \<not> sublist k t) \<and>
         (\<forall>d \<in> set detailWords. \<not> sublist d (join '' '' sel))))"

definition singleLine :: "chat_message list \<Rightarrow> bool" where
  "singleLine msgs =
     (\<forall>t \<in> set (selectedTexts msgs). \<forall>c \<in> set (trim t). \<not> isLineTerminator c)"

definition underscoresToSpaces :: "string \<Rightarrow> string" where
  "underscoresToSpaces s = map (\<lambda>c. if c = CHR ''_'' then CHR '' '' else c) s"

definition actionTypes :: "string list" where
  \<comment> \<open>the actions the message component passes to \<^verbatim>\<open>onActionResponse\<close>\<close>
  "actionTypes = [''feasibility'', ''case_study'', ''executive_report'']"

section \<open>Persistence as the specification words it\<close>

definition instants :: "chat_session list \<Rightarrow> instant list" where
  \<comment> \<open>every \<^verbatim>\<open>createdAt\<close> and every message \<^verbatim>\<open>timestamp\<close> of a collection\<close>
  "instants sessions =
     concat (map (\<lambda>s. sess_createdAt s # map msg_timestamp (sess_messages s)) sessions)"

definition stored :: "world \<Rightarrow> bool" where
  \<comment> \<open>a collection that is not empty is what the stored item holds\<close>
  "stored w = (chatSessions w \<noteq> [] \<longrightarrow> localStorage w = Some (JSON_stringify (chatSessions w)))"

section \<open>Histories and states used as examples\<close>

definition twoLineMessage :: chat_message where
  "twoLineMessage =
     \<lparr>msg_id = ''1000'', msg_role = User, msg_content = [CHR ''x'', CHR 0x0A, CHR ''y''],
      msg_timestamp = 1000, msg_sources = None\<rparr>"

definition detMessage :: chat_message where
  "detMessage =
     \<lparr>msg_id = ''1000'', msg_role = User, msg_content = ''det'',
      msg_timestamp = 1000, msg_sources = None\<rparr>"

definition ailMessage :: chat_message where
  "ailMessage =
     \<lparr>msg_id = ''3000'', msg_role = User, msg_content = ''ail'',
      msg_timestamp = 3000, msg_sources = None\<rparr>"

definition hiMessage :: chat_message where
  "hiMessage =
     \<lparr>msg_id = ''1000'', msg_role = User, msg_content = ''hi'',
      msg_timestamp = 1000, msg_sources = None\<rparr>"

definition helloReply :: chat_message where
  "helloReply =
     \<lparr>msg_id = ''2001'', msg_role = Assistant, msg_content = ''Hello'',
      msg_timestamp = 2000, msg_sources = None\<rparr>"

definition greetingWorld :: world where
  "greetingWorld = (initialWorld None)\<lparr>messages := [hiMessage, helloReply]\<rparr>"

definition assistantOnlyWorld :: world where
  "assistantOnlyWorld = (initialWorld None)\<lparr>messages := [helloReply]\<rparr>"

definition homeWorld :: world where
  "homeWorld = (initialWorld None)\<lparr>inputValue := '' How can I apply for a CNIC? ''\<rparr>"

definition oneSession :: chat_session where
  "oneSession =
     \<lparr>sess_id = ''1000'', sess_title = ''hi'', sess_messages = [hiMessage, helloReply],
      sess_createdAt = 1000\<rparr>"

definition otherSession :: chat_session where
  "otherSession =
     \<lparr>sess_id = ''5000'', sess_title = ''Tell me about e-governance ...'', sess_messages = [],
      sess_createdAt = 5000\<rparr>"

definition listWorld :: world where
  "listWorld =
     (initialWorld None)\<lparr>chatSessions := [otherSession, oneSession],
                          currentSessionId := Some ''1000'',
                          messages := [hiMessage, helloReply],
                          editingTitle := '' Greetings ''\<rparr>"

definition citedReply :: chat_message where
  "citedReply =
     \<lparr>msg_id = ''1709210096790'', msg_role = Assistant,
      msg_content = ''Apply at a NADRA centre.'',
      msg_timestamp = 1709210096789,
      msg_sources = Some [\<lparr>cit_id = ''1'', cit_title = ''NADRA'', cit_url = ''https://example.org'',
                           cit_snippet = ''CNIC''\<rparr>]\<rparr>"

definition citedSession :: chat_session where
  "citedSession =
     \<lparr>sess_id = ''1709210090000'', sess_title = ''How can I apply for a CNIC?'',
      sess_messages = [userMessage ''How can I apply for a CNIC?'' 1709210090000, citedReply],
      sess_createdAt = 1709210090000\<rparr>"

definition exampleParseDate :: "string \<Rightarrow> instant option" where
  "exampleParseDate s =
     (if s = ''2024-02-29T12:34:50.000Z'' then Some 1709210090000
      else if s = ''2024-02-29T12:34:56.789Z'' then Some 1709210096789
      else None)"

definition helloResponse :: chat_response where
  "helloResponse = \<lparr>resp_answer = ''Hello'', resp_documents_retrieved = 0, resp_sources = None\<rparr>"

definition greetedWorld :: world where
  \<comment> \<open>a first conversation: the user has sent \<open>hi\<close> and the reply has arrived\<close>
  "greetedWorld =
     run [InputChange ''hi'', SendMessage None 1000, ChatSettled 0 (Fulfilled helloResponse) 2000]
       (initialWorld None)"

definition sameTickWorld :: world where
  \<comment> \<open>a conversation begun and answered while \<^verbatim>\<open>Date.now()\<close> returns 1000, then Return to Home\<close>
  "sameTickWorld =
     run [InputChange ''a'', SendMessage None 1000, ChatSettled 0 (Fulfilled helloResponse) 1000,
          ReturnHome]
       (initialWorld None)"

definition helloMessage :: chat_message where
  "helloMessage =
     \<lparr>msg_id = ''3000'', msg_role = User, msg_content = ''hello'',
      msg_timestamp = 3000, msg_sources = None\<rparr>"

definition epochParseDate :: "string \<Rightarrow> instant option" where
  "epochParseDate s =
     (if s = ''1970-01-01T00:00:01.000Z'' then Some 1000
      else if s = ''1970-01-01T00:00:02.000Z'' then Some 2000
      else None)"

section \<open>Action Gate: proofs\<close>

lemmas string_eval =
  toLowerCase_def toLowerChar_def upperCaseLetters_def lowerCaseLetters_def
  trim_def isWhiteSpace_def isWordChar_def isLineTerminator_def

lemma includes_str_sublist: "includes_str s k = sublist k s"
  by (induction s) (simp_all add: sublist_Cons_right)

lemma slice_from_end_rev: "slice_from_end n xs = rev (take n (rev xs))"
  by (simp add: slice_from_end_def rev_take)

lemma recentUserTexts_selected: "recentUserTexts msgs = selectedTexts msgs"
  by (simp add: recentUserTexts_def selectedTexts_def lastUserMessages_def slice_from_end_rev Let_def)

lemma words_end_in_word_char:
  "\<forall>w \<in> set (greetingWords @ smallTalkWords @ acknowledgementWords). w \<noteq> [] \<and> isWordChar (last w)"
  by code_simp

lemma boundary_after_word:
  assumes "w \<noteq> []" "isWordChar (last w)" "prefix w t"
  shows "wordBoundary w (drop (length w) t) = (length t = length w \<or> \<not> isWordChar (t ! length w))"
proof (cases "length t = length w")
  case True
  then show ?thesis using assms by (simp add: wordBoundary_def)
next
  case False
  with assms(3) have lt: "length w < length t"
    by (metis le_neq_implies_less prefix_length_le)
  then have "drop (length w) t \<noteq> []" by simp
  moreover have "hd (drop (length w) t) = t ! length w"
    using lt by (simp add: hd_drop_conv_nth)
  ultimately show ?thesis using assms False by (simp add: wordBoundary_def)
qed

lemma testWords_startsWithWord:
  assumes "\<forall>w \<in> set ws. w \<noteq> [] \<and> isWordChar (last w)"
  shows "testWords ws t = (\<exists>w \<in> set ws. startsWithWord t w)"
  using assms boundary_after_word
  by (auto simp add: testWords_def list_ex_iff startsWithWord_def)

lemma simple_patterns_test:
  "list_ex (\<lambda>pattern. pattern t) simplePatterns =
     (matchesGreetingPrefix t \<or>
      (1 \<le> length t \<and> length t \<le> 20 \<and> (\<forall>c \<in> set t. \<not> isLineTerminator c)))"
proof -
  have g: "testWords greetingWords t = (\<exists>w \<in> set greetingWords. startsWithWord t w)"
    using words_end_in_word_char by (intro testWords_startsWithWord) simp
  have s: "testWords smallTalkWords t = (\<exists>w \<in> set smallTalkWords. startsWithWord t w)"
    using words_end_in_word_char by (intro testWords_startsWithWord) simp
  have a: "testWords acknowledgementWords t = (\<exists>w \<in> set acknowledgementWords. startsWithWord t w)"
    using words_end_in_word_char by (intro testWords_startsWithWord) simp
  show ?thesis
    unfolding simplePatterns_def matchesGreetingPrefix_def
    by (simp add: g s a testShort_def list_all_iff) blast
qed

lemma hasSimpleContent_iff:
  "hasSimpleContent ts =
     (\<exists>t \<in> set ts. matchesGreetingPrefix (trim t) \<or>
            (1 \<le> length (trim t) \<and> length (trim t) \<le> 20 \<and>
             (\<forall>c \<in> set (trim t). \<not> isLineTerminator c)))"
  unfolding hasSimpleContent_def list_ex_iff
  by (simp add: simple_patterns_test [unfolded list_ex_iff])

lemma hasGovernmentContent_iff:
  "hasGovernmentContent ts = (\<exists>t \<in> set ts. \<exists>k \<in> set governmentKeywords. sublist k t)"
  by (simp add: hasGovernmentContent_def list_ex_iff includes_str_sublist)

lemma isDetailedRequest_iff:
  "isDetailedRequest ts = (\<exists>d \<in> set detailWords. sublist d (join '' '' ts))"
  by (simp add: isDetailedRequest_def detailWords_def includes_str_sublist Let_def)

lemma isSimpleChat_selected:
  "isSimpleChat msgs =
     (msgs = [] \<or>
      (hasSimpleContent (selectedTexts msgs) \<and>
       (\<forall>t \<in> set (selectedTexts msgs). \<forall>k \<in> set governmentKeywords. \<not> sublist k t) \<and>
       (\<forall>d \<in> set detailWords. \<not> sublist d (join '' '' (selectedTexts msgs)))))"
  by (cases msgs)
    (simp_all add: isSimpleChat_def recentUserTexts_selected
      hasGovernmentContent_iff isDetailedRequest_iff Let_def)

lemma hasSimpleContent_short:
  "hasSimpleContent ts \<Longrightarrow>
     \<exists>t \<in> set ts. matchesGreetingPrefix (trim t) \<or>
       (1 \<le> length (trim t) \<and> length (trim t) \<le> 20)"
  unfolding hasSimpleContent_iff by blast

lemma hasSimpleContent_single_line:
  assumes "\<forall>t \<in> set ts. \<forall>c \<in> set (trim t). \<not> isLineTerminator c"
  shows "hasSimpleContent ts =
     (\<exists>t \<in> set ts. matchesGreetingPrefix (trim t) \<or>
       (1 \<le> length (trim t) \<and> length (trim t) \<le> 20))"
  unfolding hasSimpleContent_iff using assms by blast

lemma isSimpleChat_implies_amended: "isSimpleChat msgs \<Longrightarrow> amended_insufficient msgs"
  unfolding isSimpleChat_selected amended_insufficient_def Let_def
  using hasSimpleContent_short [of "selectedTexts msgs"] by blast

lemma isSimpleChat_amended:
  assumes "singleLine msgs"
  shows "isSimpleChat msgs = amended_insufficient msgs"
  unfolding isSimpleChat_selected amended_insufficient_def Let_def
  using hasSimpleContent_single_line [of "selectedTexts msgs"] assms [unfolded singleLine_def]
  by simp

lemma recentUserTexts_user_only:
  assumes "filter (\<lambda>m. msg_role m = User) msgs' = filter (\<lambda>m. msg_role m = User) msgs"
  shows "recentUserTexts msgs' = recentUserTexts msgs"
  using assms by (simp add: recentUserTexts_def)

lemma two_line_code: "\<not> isSimpleChat [twoLineMessage]"
  by code_simp

lemma two_line_claimed: "claimed_insufficient [twoLineMessage]"
  by (simp add: claimed_insufficient_def selectedTexts_def lastUserMessages_def twoLineMessage_def
      detailWords_def governmentKeywords_def includes_str_sublist [symmetric] string_eval)

section \<open>Effects: what they leave unchanged\<close>

lemma saveEffect_fields [simp]:
  "messages (saveEffect w) = messages w"
  "inputValue (saveEffect w) = inputValue w"
  "isLoading (saveEffect w) = isLoading w"
  "chatSessions (saveEffect w) = chatSessions w"
  "currentSessionId (saveEffect w) = currentSessionId w"
  "editingSessionId (saveEffect w) = editingSessionId w"
  "editingTitle (saveEffect w) = editingTitle w"
  "deleteDialogOpen (saveEffect w) = deleteDialogOpen w"
  "sessionToDelete (saveEffect w) = sessionToDelete w"
  "inflight (saveEffect w) = inflight w"
  by (simp_all add: saveEffect_def)

lemma syncEffect_fields [simp]:
  "messages (syncEffect w) = messages w"
  "inputValue (syncEffect w) = inputValue w"
  "isLoading (syncEffect w) = isLoading w"
  "currentSessionId (syncEffect w) = currentSessionId w"
  "editingSessionId (syncEffect w) = editingSessionId w"
  "editingTitle (syncEffect w) = editingTitle w"
  "deleteDialogOpen (syncEffect w) = deleteDialogOpen w"
  "sessionToDelete (syncEffect w) = sessionToDelete w"
  "localStorage (syncEffect w) = localStorage w"
  "inflight (syncEffect w) = inflight w"
  by (simp_all add: syncEffect_def)

lemma syncCondition_saveEffect [simp]: "syncCondition (saveEffect w) = syncCondition w"
  by (simp add: syncCondition_def)

lemma commit_fields [simp]:
  "messages (commit a b w) = messages w"
  "inputValue (commit a b w) = inputValue w"
  "isLoading (commit a b w) = isLoading w"
  "currentSessionId (commit a b w) = currentSessionId w"
  "editingSessionId (commit a b w) = editingSessionId w"
  "editingTitle (commit a b w) = editingTitle w"
  "deleteDialogOpen (commit a b w) = deleteDialogOpen w"
  "sessionToDelete (commit a b w) = sessionToDelete w"
  "inflight (commit a b w) = inflight w"
  by (simp_all add: commit_def Let_def)

lemma commit_none [simp]: "commit False False w = w"
  by (simp add: commit_def)

lemma chatSessions_syncEffect_saveEffect [simp]:
  "chatSessions (syncEffect (saveEffect w)) = chatSessions (syncEffect w)"
  by (simp add: syncEffect_def)

lemma chatSessions_commit:
  "chatSessions (commit a b w) =
     (if b \<and> syncCondition w then chatSessions (syncEffect w) else chatSessions w)"
  by (cases a) (simp_all add: commit_def Let_def)

lemma ids_syncEffect [simp]: "map sess_id (chatSessions (syncEffect w)) = map sess_id (chatSessions w)"
  by (simp add: syncEffect_def comp_def)

lemma ids_commit [simp]: "map sess_id (chatSessions (commit a b w)) = map sess_id (chatSessions w)"
  by (simp add: chatSessions_commit)

section \<open>Action Gate in the handler\<close>

lemma hi_texts_simple:
  "hasSimpleContent [''hi''] \<and> \<not> hasGovernmentContent [''hi''] \<and> \<not> isDetailedRequest [''hi'']"
  by code_simp

lemma only_user_message_hi:
  assumes "filter (\<lambda>m. msg_role m = User) msgs = [m]" and "msg_content m = ''hi''"
  shows "isSimpleChat msgs"
proof -
  have "msgs \<noteq> []" using assms(1) by auto
  moreover have "toLowerCase ''hi'' = ''hi''" by code_simp
  then have "recentUserTexts msgs = [''hi'']"
    using assms by (simp add: recentUserTexts_def slice_from_end_def)
  ultimately show ?thesis
    using hi_texts_simple by (simp add: isSimpleChat_def)
qed

lemma no_user_message_sufficient:
  assumes "msgs \<noteq> []" and "\<forall>m \<in> set msgs. msg_role m \<noteq> User"
  shows "\<not> isSimpleChat msgs"
proof -
  have "filter (\<lambda>m. msg_role m = User) msgs = []"
    using assms(2) by (simp add: filter_empty_conv)
  then have "recentUserTexts msgs = []"
    by (simp add: recentUserTexts_def slice_from_end_def)
  then show ?thesis
    using assms(1) by (simp add: isSimpleChat_def hasSimpleContent_def)
qed

lemma replaceFirst_action:
  "action \<in> set actionTypes \<Longrightarrow>
     replaceFirst (CHR ''_'') (CHR '' '') action = underscoresToSpaces action"
  by (auto simp add: actionTypes_def underscoresToSpaces_def)

text \<open>
  Only the first underscore is replaced; the three action types have at most one.
\<close>

lemma replaceFirst_first_only:
  "replaceFirst (CHR ''_'') (CHR '' '') ''a_b_c'' = ''a b_c''"
  by simp

lemma template_names_action:
  "sublist (replaceFirst (CHR ''_'') (CHR '' '') action)
     (msg_content (insufficientDataMessage action now))"
  unfolding insufficientDataMessage_def chat_message.simps
  by (rule sublist_appendI)

lemma action_click_insufficient:
  assumes "isSimpleChat (messages w)"
  shows "step (ActionClick action q now) w =
           commit False True
             (w\<lparr>messages := messages w @ [insufficientDataMessage action now], isLoading := False\<rparr>)"
  using assms by (simp add: handleActionResponse_def)

lemma action_click_sufficient:
  assumes "\<not> isSimpleChat (messages w)"
  shows "step (ActionClick action q now) w =
           w\<lparr>isLoading := True,
             inflight := inflight w @
               [ActionCall action q (join [CHR 0x0A] (map msg_content (messages w)))]\<rparr>"
  using assms by (simp add: handleActionResponse_def)

text \<open>
  The pattern for very short messages has no \<^verbatim>\<open>s\<close> flag. For one user message of two
  one-character lines, \<open>x\<close>, a line feed, \<open>y\<close>, whose trimmed text has 3 characters,
  \<^verbatim>\<open>/^.{1,20}$/\<close> does not match across the line feed, no other pattern matches, and the gate
  decides sufficient.
\<close>

lemma short_pattern_stops_at_line_feed:
  "\<not> isSimpleChat [twoLineMessage] \<and> claimed_insufficient [twoLineMessage] \<and>
   \<not> singleLine [twoLineMessage]"
proof -
  have "\<not> singleLine [twoLineMessage]"
    by code_simp
  then show ?thesis
    using two_line_code two_line_claimed by simp
qed

lemma det_ail_code: "isSimpleChat [detMessage, ailMessage]"
  by code_simp

lemma det_ail_claimed: "\<not> claimed_insufficient [detMessage, ailMessage]"
proof -
  have "sublist ''detail'' (concat [''det'', ''ail''])"
    by (simp add: includes_str_sublist [symmetric])
  then show ?thesis
    by (simp add: claimed_insufficient_def selectedTexts_def lastUserMessages_def detMessage_def
        ailMessage_def detailWords_def string_eval)
qed

lemma det_ail_single_line: "singleLine [detMessage, ailMessage]"
  by code_simp

text \<open>
  C2, as stated, fails on the code. The history is the two user messages \<open>det\<close> and \<open>ail\<close>.
  Their concatenation reads \<open>detail\<close>, so by the words of the claim the request is a detailed
  one and the context sufficient; the code joins the texts with a space, finds none of the six
  words in \<open>det ail\<close>, and decides insufficient.
\<close>

theorem gate_concatenation_counterexample:
  "\<not> (isSimpleChat [detMessage, ailMessage] \<longleftrightarrow> claimed_insufficient [detMessage, ailMessage])"
  using det_ail_code det_ail_claimed by simp

text \<open>
  C2, amended. For every history in which no selected text has a line terminator inside its
  trimmed text, the gate decides insufficient exactly when the history is empty or, over the
  lowercased texts of its last 3 user messages: some trimmed text starts with a greeting,
  small-talk or acknowledgement word that ends at a word boundary, or has 1 to 20 characters; and
  no text contains a domain keyword; and the texts joined by single spaces contain none of the six
  detail words. Whatever the action, the click issues no remote call exactly in that case. For
  every history, whenever the gate decides insufficient that condition holds. The three component
  predicates are the same for two histories with the same user messages.
\<close>

theorem gate_decision_amended:
  "(singleLine msgs \<longrightarrow> (isSimpleChat msgs \<longleftrightarrow> amended_insufficient msgs)) \<and>
   (isSimpleChat msgs \<longrightarrow> amended_insufficient msgs) \<and>
   (singleLine (messages w) \<longrightarrow>
      (inflight (step (ActionClick action q now) w) = inflight w \<longleftrightarrow>
         amended_insufficient (messages w))) \<and>
   (filter (\<lambda>m. msg_role m = User) msgs' = filter (\<lambda>m. msg_role m = User) msgs \<longrightarrow>
      hasSimpleContent (recentUserTexts msgs') = hasSimpleContent (recentUserTexts msgs) \<and>
      hasGovernmentContent (recentUserTexts msgs') = hasGovernmentContent (recentUserTexts msgs) \<and>
      isDetailedRequest (recentUserTexts msgs') = isDetailedRequest (recentUserTexts msgs))"
proof (intro conjI impI)
  assume "singleLine msgs"
  then show "isSimpleChat msgs \<longleftrightarrow> amended_insufficient msgs"
    by (rule isSimpleChat_amended)
next
  assume "isSimpleChat msgs"
  then show "amended_insufficient msgs"
    by (rule isSimpleChat_implies_amended)
next
  assume l: "singleLine (messages w)"
  show "inflight (step (ActionClick action q now) w) = inflight w \<longleftrightarrow>
      amended_insufficient (messages w)"
  proof (cases "isSimpleChat (messages w)")
    case True
    then show ?thesis
      unfolding action_click_insufficient [OF True] by (simp add: isSimpleChat_amended [OF l])
  next
    case False
    then show ?thesis
      unfolding action_click_sufficient [OF False] by (simp add: isSimpleChat_amended [OF l])
  qed
next
  assume "filter (\<lambda>m. msg_role m = User) msgs' = filter (\<lambda>m. msg_role m = User) msgs"
  then have eq: "recentUserTexts msgs' = recentUserTexts msgs"
    by (rule recentUserTexts_user_only)
  show "hasSimpleContent (recentUserTexts msgs') = hasSimpleContent (recentUserTexts msgs)"
    by (simp only: eq)
  show "hasGovernmentContent (recentUserTexts msgs') = hasGovernmentContent (recentUserTexts msgs)"
    by (simp only: eq)
  show "isDetailedRequest (recentUserTexts msgs') = isDetailedRequest (recentUserTexts msgs)"
    by (simp only: eq)
qed

lemma hi_hello_simple: "isSimpleChat [hiMessage, helloReply]"
  by code_simp

lemma hi_hello_single_line: "singleLine [hiMessage, helloReply]"
  by code_simp

theorem gate_decision_amended_witness:
  "singleLine [hiMessage, helloReply] \<and>
   singleLine (messages greetingWorld) \<and>
   isSimpleChat [hiMessage, helloReply] \<and>
   amended_insufficient [hiMessage, helloReply] \<and>
   inflight (step (ActionClick ''case_study'' ''Hello'' 3000) greetingWorld) = [] \<and>
   filter (\<lambda>m. msg_role m = User) [hiMessage] =
     filter (\<lambda>m. msg_role m = User) [hiMessage, helloReply] \<and>
   hasSimpleContent (recentUserTexts [hiMessage]) =
     hasSimpleContent (recentUserTexts [hiMessage, helloReply])"
proof -
  have f: "filter (\<lambda>m. msg_role m = User) [hiMessage] =
           filter (\<lambda>m. msg_role m = User) [hiMessage, helloReply]"
    by (simp add: hiMessage_def helloReply_def)
  have m: "messages greetingWorld = [hiMessage, helloReply]" "inflight greetingWorld = []"
    by (simp_all add: greetingWorld_def initialWorld_def)
  have l: "singleLine (messages greetingWorld)"
    by (simp add: m hi_hello_single_line)
  note t = gate_decision_amended [of "[hiMessage, helloReply]" greetingWorld "''case_study''"
      "''Hello''" 3000 "[hiMessage]"]
  from t hi_hello_single_line hi_hello_simple have a: "amended_insufficient [hiMessage, helloReply]"
    by blast
  from t l have "inflight (step (ActionClick ''case_study'' ''Hello'' 3000) greetingWorld) =
      inflight greetingWorld \<longleftrightarrow> amended_insufficient (messages greetingWorld)"
    by blast
  then have i: "inflight (step (ActionClick ''case_study'' ''Hello'' 3000) greetingWorld) = []"
    using a by (simp add: m)
  from t f have h: "hasSimpleContent (recentUserTexts [hiMessage]) =
     hasSimpleContent (recentUserTexts [hiMessage, helloReply])"
    by blast
  show ?thesis
    using hi_hello_single_line l hi_hello_simple a i f h by simp
qed

text \<open>
  C3. With a history whose only user message is \<open>hi\<close>, the click on \<open>feasibility\<close> finds the
  context insufficient, issues no remote call and appends one assistant message whose content
  contains \<open>feasibility\<close>. For each of the three action types, whenever the gate decides
  insufficient, the click issues no call and appends the assistant message of the template, whose
  content contains the action name with its underscores turned into spaces.
\<close>

theorem insufficient_context_message:
  "(filter (\<lambda>m. msg_role m = User) (messages w) = [m] \<and> msg_content m = ''hi'' \<longrightarrow>
      isSimpleChat (messages w) \<and>
      inflight (step (ActionClick ''feasibility'' q now) w) = inflight w \<and>
      messages (step (ActionClick ''feasibility'' q now) w) =
        messages w @ [insufficientDataMessage ''feasibility'' now] \<and>
      msg_role (insufficientDataMessage ''feasibility'' now) = Assistant \<and>
      sublist ''feasibility'' (msg_content (insufficientDataMessage ''feasibility'' now))) \<and>
   (action \<in> set actionTypes \<and> isSimpleChat (messages w) \<longrightarrow>
      inflight (step (ActionClick action q now) w) = inflight w \<and>
      messages (step (ActionClick action q now) w) =
        messages w @ [insufficientDataMessage action now] \<and>
      msg_role (insufficientDataMessage action now) = Assistant \<and>
      sublist (underscoresToSpaces action) (msg_content (insufficientDataMessage action now)))"
proof (intro conjI impI)
  assume h: "filter (\<lambda>m. msg_role m = User) (messages w) = [m] \<and> msg_content m = ''hi''"
  then show s: "isSimpleChat (messages w)"
    using only_user_message_hi by blast
  show "inflight (step (ActionClick ''feasibility'' q now) w) = inflight w"
    unfolding action_click_insufficient [OF s] by simp
  show "messages (step (ActionClick ''feasibility'' q now) w) =
          messages w @ [insufficientDataMessage ''feasibility'' now]"
    unfolding action_click_insufficient [OF s] by simp
  show "msg_role (insufficientDataMessage ''feasibility'' now) = Assistant"
    by (simp add: insufficientDataMessage_def)
  have "''feasibility'' \<in> set actionTypes" by (simp add: actionTypes_def)
  then have "replaceFirst (CHR ''_'') (CHR '' '') ''feasibility'' = ''feasibility''"
    by simp
  then show "sublist ''feasibility'' (msg_content (insufficientDataMessage ''feasibility'' now))"
    using template_names_action [of "''feasibility''" now] by simp
next
  assume h: "action \<in> set actionTypes \<and> isSimpleChat (messages w)"
  then have s: "isSimpleChat (messages w)" by simp
  show "inflight (step (ActionClick action q now) w) = inflight w"
    unfolding action_click_insufficient [OF s] by simp
  show "messages (step (ActionClick action q now) w) =
          messages w @ [insufficientDataMessage action now]"
    unfolding action_click_insufficient [OF s] by simp
  show "msg_role (insufficientDataMessage action now) = Assistant"
    by (simp add: insufficientDataMessage_def)
  show "sublist (underscoresToSpaces action) (msg_content (insufficientDataMessage action now))"
    using template_names_action [of action now] replaceFirst_action h by simp
qed

text \<open>
  C10. A history that is not empty and holds no user message is classified as sufficient, and
  the click forwards the action, the message it was clicked on and the transcript joined by line
  feeds to the remote endpoint; nothing is appended to the displayed messages.
\<close>

theorem no_user_messages_forwarded:
  "messages w \<noteq> [] \<and> (\<forall>m \<in> set (messages w). msg_role m \<noteq> User) \<longrightarrow>
     \<not> isSimpleChat (messages w) \<and>
     hasSimpleContent (recentUserTexts (messages w)) = False \<and>
     step (ActionClick action q now) w =
       w\<lparr>isLoading := True,
         inflight := inflight w @
           [ActionCall action q (join [CHR 0x0A] (map msg_content (messages w)))]\<rparr>"
proof (intro impI conjI)
  assume h: "messages w \<noteq> [] \<and> (\<forall>m \<in> set (messages w). msg_role m \<noteq> User)"
  then show s: "\<not> isSimpleChat (messages w)"
    using no_user_message_sufficient by blast
  have "filter (\<lambda>m. msg_role m = User) (messages w) = []"
    using h by (simp add: filter_empty_conv)
  then show "hasSimpleContent (recentUserTexts (messages w)) = False"
    by (simp add: recentUserTexts_def slice_from_end_def hasSimpleContent_def)
  show "step (ActionClick action q now) w =
       w\<lparr>isLoading := True,
         inflight := inflight w @
           [ActionCall action q (join [CHR 0x0A] (map msg_content (messages w)))]\<rparr>"
    by (rule action_click_sufficient [OF s])
qed

theorem no_user_messages_forwarded_witness:
  "messages assistantOnlyWorld \<noteq> [] \<and>
   map msg_role (messages assistantOnlyWorld) = [Assistant] \<and>
   \<not> isSimpleChat (messages assistantOnlyWorld) \<and>
   inflight (step (ActionClick ''case_study'' ''Hello'' 3000) assistantOnlyWorld) =
     [ActionCall ''case_study'' ''Hello'' ''Hello'']"
proof -
  have m: "messages assistantOnlyWorld = [helloReply]"
    by (simp add: assistantOnlyWorld_def initialWorld_def)
  have h: "messages assistantOnlyWorld \<noteq> [] \<and>
           (\<forall>m \<in> set (messages assistantOnlyWorld). msg_role m \<noteq> User)"
    by (simp add: m helloReply_def)
  have i: "inflight assistantOnlyWorld = []"
    by (simp add: assistantOnlyWorld_def initialWorld_def)
  have c: "join [CHR 0x0A] (map msg_content (messages assistantOnlyWorld)) = ''Hello''"
    by (simp add: m helloReply_def)
  from no_user_messages_forwarded [of assistantOnlyWorld "''case_study''" "''Hello''" 3000] h
  have "\<not> isSimpleChat (messages assistantOnlyWorld)"
    and "step (ActionClick ''case_study'' ''Hello'' 3000) assistantOnlyWorld =
       assistantOnlyWorld\<lparr>isLoading := True,
         inflight := inflight assistantOnlyWorld @
           [ActionCall ''case_study'' ''Hello''
              (join [CHR 0x0A] (map msg_content (messages assistantOnlyWorld)))]\<rparr>"
    by blast+
  then show ?thesis using i c by (simp add: m helloReply_def)
qed

theorem insufficient_context_message_witness:
  "filter (\<lambda>m. msg_role m = User) (messages greetingWorld) = [hiMessage] \<and>
   msg_content hiMessage = ''hi'' \<and>
   ''case_study'' \<in> set actionTypes \<and>
   isSimpleChat (messages greetingWorld) \<and>
   inflight (step (ActionClick ''case_study'' ''Hello'' 3000) greetingWorld) = [] \<and>
   messages (step (ActionClick ''feasibility'' ''Hello'' 3000) greetingWorld) =
     [hiMessage, helloReply, insufficientDataMessage ''feasibility'' 3000] \<and>
   sublist ''case study'' (msg_content (insufficientDataMessage ''case_study'' 3000))"
proof -
  have m: "messages greetingWorld = [hiMessage, helloReply]"
    by (simp add: greetingWorld_def initialWorld_def)
  have f: "filter (\<lambda>m. msg_role m = User) (messages greetingWorld) = [hiMessage] \<and>
           msg_content hiMessage = ''hi''"
    by (simp add: m hiMessage_def helloReply_def)
  have a: "''case_study'' \<in> set actionTypes"
    by (simp add: actionTypes_def)
  have u: "underscoresToSpaces ''case_study'' = ''case study''"
    by (simp add: underscoresToSpaces_def)
  have i: "inflight greetingWorld = []"
    by (simp add: greetingWorld_def initialWorld_def)
  note t = insufficient_context_message [of greetingWorld hiMessage "''Hello''" 3000 "''case_study''"]
  from t f have s: "isSimpleChat (messages greetingWorld)"
    and fm: "messages (step (ActionClick ''feasibility'' ''Hello'' 3000) greetingWorld) =
        messages greetingWorld @ [insufficientDataMessage ''feasibility'' 3000]"
    by blast+
  from t a s have "inflight (step (ActionClick ''case_study'' ''Hello'' 3000) greetingWorld) =
        inflight greetingWorld"
    and "sublist (underscoresToSpaces ''case_study'')
        (msg_content (insufficientDataMessage ''case_study'' 3000))"
    by blast+
  then show ?thesis using f a s fm m i u by simp
qed

section \<open>Session Store: sending\<close>

lemma toString_nonempty: "toString n \<noteq> []"
  by (subst toString.simps) simp

lemma handleSendMessage_rejected:
  "isLoading w \<or> sendText messageText w = [] \<Longrightarrow> handleSendMessage messageText now w = w"
  by (auto simp add: handleSendMessage_def)

lemma send_rejected:
  "isLoading w \<or> sendText messageText w = [] \<Longrightarrow> step (SendMessage messageText now) w = w"
  by auto

lemma handleSendMessage_accepted:
  assumes "sendText messageText w \<noteq> []" and "\<not> isLoading w"
  shows "handleSendMessage messageText now w =
     (if \<not> truthy (currentSessionId w)
      then w\<lparr>chatSessions := newSession (sendText messageText w) now # chatSessions w,
             currentSessionId := Some (toString now)\<rparr>
      else w)
     \<lparr>messages := messages w @ [userMessage (sendText messageText w) now],
      inputValue := [],
      isLoading := True,
      inflight := inflight w @ [ChatCall (sendText messageText w) (messages w)]\<rparr>"
  using assms by (simp add: handleSendMessage_def Let_def)

text \<open>
  The handler alone, before the effects run. A send that it accepts (the text is not empty and no
  call is pending) while no session is active puts exactly one new session in front of the
  collection, the sessions that were there unchanged behind it; its title is the first 30
  characters of the text, followed by three dots exactly when the text has more than 30
  characters; it becomes the active session.
\<close>

theorem first_message_creates_session:
  "sendText messageText w \<noteq> [] \<and> \<not> isLoading w \<and> \<not> truthy (currentSessionId w) \<longrightarrow>
     (let text = sendText messageText w;
          w' = handleSendMessage messageText now w
      in chatSessions w' =
           \<lparr>sess_id = toString now,
            sess_title = take 30 text @ (if length text > 30 then ''...'' else []),
            sess_messages = [],
            sess_createdAt = int now\<rparr> # chatSessions w \<and>
         tl (chatSessions w') = chatSessions w \<and>
         length (chatSessions w') = Suc (length (chatSessions w)) \<and>
         (length text \<le> 30 \<longrightarrow> sess_title (hd (chatSessions w')) = text) \<and>
         (length text > 30 \<longrightarrow> sess_title (hd (chatSessions w')) = take 30 text @ ''...'') \<and>
         currentSessionId w' = Some (toString now) \<and>
         truthy (currentSessionId w'))"
proof (intro impI)
  assume h: "sendText messageText w \<noteq> [] \<and> \<not> isLoading w \<and> \<not> truthy (currentSessionId w)"
  then have "handleSendMessage messageText now w =
     w\<lparr>chatSessions := newSession (sendText messageText w) now # chatSessions w,
       currentSessionId := Some (toString now),
       messages := messages w @ [userMessage (sendText messageText w) now],
       inputValue := [],
       isLoading := True,
       inflight := inflight w @ [ChatCall (sendText messageText w) (messages w)]\<rparr>"
    by (simp add: handleSendMessage_accepted)
  then show "let text = sendText messageText w;
          w' = handleSendMessage messageText now w
      in chatSessions w' =
           \<lparr>sess_id = toString now,
            sess_title = take 30 text @ (if length text > 30 then ''...'' else []),
            sess_messages = [],
            sess_createdAt = int now\<rparr> # chatSessions w \<and>
         tl (chatSessions w') = chatSessions w \<and>
         length (chatSessions w') = Suc (length (chatSessions w)) \<and>
         (length text \<le> 30 \<longrightarrow> sess_title (hd (chatSessions w')) = text) \<and>
         (length text > 30 \<longrightarrow> sess_title (hd (chatSessions w')) = take 30 text @ ''...'') \<and>
         currentSessionId w' = Some (toString now) \<and>
         truthy (currentSessionId w')"
    by (simp add: Let_def newSession_def truthy_def toString_nonempty)
qed

lemma homeWorld_text: "sendText None homeWorld = ''How can I apply for a CNIC?''"
  by (simp add: sendText_def homeWorld_def initialWorld_def string_eval)

theorem first_message_creates_session_witness:
  "sendText None homeWorld \<noteq> [] \<and> \<not> isLoading homeWorld \<and>
   \<not> truthy (currentSessionId homeWorld) \<and>
   chatSessions (handleSendMessage None 1000 homeWorld) =
     [\<lparr>sess_id = ''1000'', sess_title = ''How can I apply for a CNIC?'', sess_messages = [],
       sess_createdAt = 1000\<rparr>] \<and>
   currentSessionId (handleSendMessage None 1000 homeWorld) = Some ''1000''"
proof -
  have h: "sendText None homeWorld \<noteq> [] \<and> \<not> isLoading homeWorld \<and>
           \<not> truthy (currentSessionId homeWorld)"
    by (simp add: homeWorld_text) (simp add: homeWorld_def initialWorld_def truthy_def)
  have n: "toString 1000 = ''1000''"
    by (simp add: toString.simps digitChar_def)
  have c: "chatSessions homeWorld = []"
    by (simp add: homeWorld_def initialWorld_def)
  from first_message_creates_session [of None homeWorld 1000] h
  show ?thesis
    by (simp add: Let_def homeWorld_text n c)
qed

text \<open>
  The whole event. The effect that reflects the displayed messages into the active session goes
  over every session with the new identifier, the sessions that were there included.
\<close>

lemma first_message_step:
  assumes "sendText messageText w \<noteq> []" and "\<not> isLoading w"
    and "\<not> truthy (currentSessionId w)"
  shows "chatSessions (step (SendMessage messageText now) w) =
     map (\<lambda>session. if sess_id session = toString now
                     then session\<lparr>sess_messages :=
                            messages w @ [userMessage (sendText messageText w) now]\<rparr>
                     else session)
         (newSession (sendText messageText w) now # chatSessions w)"
  using assms
  by (simp add: handleSendMessage_accepted chatSessions_commit syncCondition_def syncEffect_def
      truthy_def toString_nonempty)

text \<open>
  After the effects the new session also holds the user message, and the sessions behind it are
  still the old ones when none of them carries the new identifier.
\<close>

lemma first_message_after_effects:
  assumes "sendText messageText w \<noteq> []" and "\<not> isLoading w"
    and "\<not> truthy (currentSessionId w)"
    and "\<forall>s \<in> set (chatSessions w). sess_id s \<noteq> toString now"
  shows "chatSessions (step (SendMessage messageText now) w) =
     (newSession (sendText messageText w) now)
       \<lparr>sess_messages := messages w @ [userMessage (sendText messageText w) now]\<rparr>
     # chatSessions w"
proof -
  have m: "map (\<lambda>session. if sess_id session = toString now
                 then session\<lparr>sess_messages := ms\<rparr> else session) (chatSessions w) =
           chatSessions w" for ms
    using assms(4) by (induction "chatSessions w") (auto simp add: map_idI)
  show ?thesis
    using assms(1-3)
    by (simp add: handleSendMessage_accepted chatSessions_commit syncCondition_def syncEffect_def
        truthy_def toString_nonempty newSession_def m)
qed

section \<open>Session Store: deleting and renaming\<close>

lemma id_set_commit [simp]:
  "sess_id ` set (chatSessions (commit a b w)) = sess_id ` set (chatSessions w)"
  by (simp only: set_map [symmetric] ids_commit)

lemma ids_handleSendMessage:
  "set (map sess_id (chatSessions w)) \<subseteq>
   set (map sess_id (chatSessions (handleSendMessage messageText now w)))"
  by (auto simp add: handleSendMessage_def Let_def)

lemma ids_handleSaveEdit:
  "map sess_id (chatSessions (handleSaveEdit sid w)) = map sess_id (chatSessions w)"
  by (simp add: handleSaveEdit_def Let_def comp_def if_distrib cong: if_cong)

lemma ids_step:
  assumes "e \<noteq> ConfirmDelete"
  shows "set (map sess_id (chatSessions w)) \<subseteq> set (map sess_id (chatSessions (step e w)))"
proof (cases e)
  case (SendMessage messageText now)
  then show ?thesis
    using ids_handleSendMessage [of w messageText now] by simp
next
  case (ChatSettled i result now)
  then show ?thesis
    by (simp add: handleSendMessage_settled_def settle_def split: settled.split)
next
  case (ActionClick action q now)
  then show ?thesis
    by (simp add: handleActionResponse_def)
next
  case (ActionSettled i result now)
  then show ?thesis
    by (simp add: handleActionResponse_settled_def settle_def split: settled.split)
next
  case (SelectSession i)
  then show ?thesis
    by (simp add: selectSession_def)
next
  case (SaveEdit sid)
  then show ?thesis
    using ids_handleSaveEdit [of sid w] by (simp flip: set_map)
next
  case ConfirmDelete
  then show ?thesis using assms by simp
qed (simp_all add: handleReturnHome_def handleStartEdit_def handleCancelEdit_def
      handleDeleteSession_def cancelDelete_def)

lemma confirm_step:
  assumes "sessionToDelete w = Some sid" and "sid \<noteq> []"
  shows "chatSessions (step ConfirmDelete w) = filter (\<lambda>s. sess_id s \<noteq> sid) (chatSessions w)"
    and "sessionToDelete (step ConfirmDelete w) = None"
    and "deleteDialogOpen (step ConfirmDelete w) = False"
    and "currentSessionId w = Some sid \<Longrightarrow>
           messages (step ConfirmDelete w) = [] \<and> currentSessionId (step ConfirmDelete w) = None"
    and "currentSessionId w \<noteq> Some sid \<Longrightarrow>
           messages (step ConfirmDelete w) = messages w \<and>
           currentSessionId (step ConfirmDelete w) = currentSessionId w"
  using assms
  by (simp_all add: confirmDeleteSession_def truthy_def Let_def chatSessions_commit
      syncCondition_def)

text \<open>
  C8. The request step leaves the collection, the displayed messages and the active pointer as
  they are and records the session it was asked for. No event other than the confirm step makes
  the identifier of a session disappear from the collection. The confirm step removes the
  sessions with the recorded identifier and, when that is the active one, empties the displayed
  messages and clears the active pointer.
\<close>

theorem two_phase_delete:
  "chatSessions (step (RequestDelete sid) w) = chatSessions w \<and>
   messages (step (RequestDelete sid) w) = messages w \<and>
   currentSessionId (step (RequestDelete sid) w) = currentSessionId w \<and>
   localStorage (step (RequestDelete sid) w) = localStorage w \<and>
   sessionToDelete (step (RequestDelete sid) w) = Some sid \<and>
   deleteDialogOpen (step (RequestDelete sid) w) \<and>
   (e \<noteq> ConfirmDelete \<longrightarrow>
      set (map sess_id (chatSessions w)) \<subseteq> set (map sess_id (chatSessions (step e w)))) \<and>
   (sessionToDelete w = Some sid \<and> sid \<noteq> [] \<longrightarrow>
      chatSessions (step ConfirmDelete w) = filter (\<lambda>s. sess_id s \<noteq> sid) (chatSessions w) \<and>
      sessionToDelete (step ConfirmDelete w) = None \<and>
      (currentSessionId w = Some sid \<longrightarrow>
         messages (step ConfirmDelete w) = [] \<and> currentSessionId (step ConfirmDelete w) = None) \<and>
      (currentSessionId w \<noteq> Some sid \<longrightarrow>
         messages (step ConfirmDelete w) = messages w \<and>
         currentSessionId (step ConfirmDelete w) = currentSessionId w))"
  using ids_step [of e w] confirm_step [of w sid]
  by (simp add: handleDeleteSession_def)

lemma listWorld_fields:
  "chatSessions listWorld = [otherSession, oneSession]"
  "currentSessionId listWorld = Some ''1000''"
  "messages listWorld = [hiMessage, helloReply]"
  "editingTitle listWorld = '' Greetings ''"
  "localStorage listWorld = None"
  by (simp_all add: listWorld_def initialWorld_def)

theorem two_phase_delete_witness:
  "chatSessions (step (RequestDelete ''1000'') listWorld) = [otherSession, oneSession] \<and>
   sessionToDelete (step (RequestDelete ''1000'') listWorld) = Some ''1000'' \<and>
   chatSessions (step ConfirmDelete (step (RequestDelete ''1000'') listWorld)) = [otherSession] \<and>
   messages (step ConfirmDelete (step (RequestDelete ''1000'') listWorld)) = [] \<and>
   currentSessionId (step ConfirmDelete (step (RequestDelete ''1000'') listWorld)) = None"
proof -
  let ?w = "step (RequestDelete ''1000'') listWorld"
  from two_phase_delete [of "''1000''" listWorld "RequestDelete ''1000''"]
  have r: "chatSessions ?w = chatSessions listWorld" "currentSessionId ?w = currentSessionId listWorld"
    "sessionToDelete ?w = Some ''1000''"
    by blast+
  have h: "sessionToDelete ?w = Some ''1000'' \<and> ''1000'' \<noteq> []"
    using r by simp
  from two_phase_delete [of "''1000''" ?w "RequestDelete ''1000''"] h
  have c: "chatSessions (step ConfirmDelete ?w) =
             filter (\<lambda>s. sess_id s \<noteq> ''1000'') (chatSessions ?w)"
    and m: "currentSessionId ?w = Some ''1000'' \<longrightarrow>
         messages (step ConfirmDelete ?w) = [] \<and> currentSessionId (step ConfirmDelete ?w) = None"
    by blast+
  have f: "filter (\<lambda>s. sess_id s \<noteq> ''1000'') [otherSession, oneSession] = [otherSession]"
    by (simp add: otherSession_def oneSession_def)
  show ?thesis
    using r c m f by (simp add: listWorld_fields)
qed

lemma rename_map_nth:
  assumes "i < length xs"
  shows "map (\<lambda>s. if sess_id s = sid then s\<lparr>sess_title := t\<rparr> else s) xs ! i =
         (if sess_id (xs ! i) = sid then (xs ! i)\<lparr>sess_title := t\<rparr> else xs ! i)"
  using assms by simp

lemma save_edit_step:
  "trim (editingTitle w) \<noteq> [] \<Longrightarrow>
     chatSessions (step (SaveEdit sid) w) =
       map (\<lambda>s. if sess_id s = sid then s\<lparr>sess_title := trim (editingTitle w)\<rparr> else s)
         (chatSessions w)"
  "trim (editingTitle w) = [] \<Longrightarrow> chatSessions (step (SaveEdit sid) w) = chatSessions w"
  "trim (editingTitle w) = [] \<Longrightarrow> localStorage (step (SaveEdit sid) w) = localStorage w"
  by (simp_all add: handleSaveEdit_def Let_def chatSessions_commit)

text \<open>
  C9. With a title that is not empty after trimming, the rename gives the trimmed title to the
  sessions with the given identifier and changes nothing else: position by position the
  identifier, the messages and the creation instant are the old ones, and a session with another
  identifier is the old session. With a title that is empty after trimming, the collection and
  the stored item stay as they are.
\<close>

theorem rename_session:
  "(trim (editingTitle w) \<noteq> [] \<longrightarrow>
      length (chatSessions (step (SaveEdit sid) w)) = length (chatSessions w) \<and>
      (\<forall>i < length (chatSessions w).
         sess_id (chatSessions (step (SaveEdit sid) w) ! i) = sess_id (chatSessions w ! i) \<and>
         sess_messages (chatSessions (step (SaveEdit sid) w) ! i) =
           sess_messages (chatSessions w ! i) \<and>
         sess_createdAt (chatSessions (step (SaveEdit sid) w) ! i) =
           sess_createdAt (chatSessions w ! i) \<and>
         (sess_id (chatSessions w ! i) = sid \<longrightarrow>
            sess_title (chatSessions (step (SaveEdit sid) w) ! i) = trim (editingTitle w)) \<and>
         (sess_id (chatSessions w ! i) \<noteq> sid \<longrightarrow>
            chatSessions (step (SaveEdit sid) w) ! i = chatSessions w ! i))) \<and>
   (trim (editingTitle w) = [] \<longrightarrow>
      chatSessions (step (SaveEdit sid) w) = chatSessions w \<and>
      localStorage (step (SaveEdit sid) w) = localStorage w)"
proof (intro conjI impI allI)
  assume t: "trim (editingTitle w) \<noteq> []"
  note c = save_edit_step(1) [OF t, of sid]
  show "length (chatSessions (step (SaveEdit sid) w)) = length (chatSessions w)"
    unfolding c by simp
  fix i
  assume i: "i < length (chatSessions w)"
  note n = rename_map_nth [OF i, of sid "trim (editingTitle w)"]
  show "sess_id (chatSessions (step (SaveEdit sid) w) ! i) = sess_id (chatSessions w ! i)"
    unfolding c n by simp
  show "sess_messages (chatSessions (step (SaveEdit sid) w) ! i) =
          sess_messages (chatSessions w ! i)"
    unfolding c n by simp
  show "sess_createdAt (chatSessions (step (SaveEdit sid) w) ! i) =
          sess_createdAt (chatSessions w ! i)"
    unfolding c n by simp
  show "sess_title (chatSessions (step (SaveEdit sid) w) ! i) = trim (editingTitle w)"
    if "sess_id (chatSessions w ! i) = sid"
    unfolding c n using that by simp
  show "chatSessions (step (SaveEdit sid) w) ! i = chatSessions w ! i"
    if "sess_id (chatSessions w ! i) \<noteq> sid"
    unfolding c n using that by simp
next
  assume t: "trim (editingTitle w) = []"
  show "chatSessions (step (SaveEdit sid) w) = chatSessions w"
    by (rule save_edit_step(2) [OF t])
  show "localStorage (step (SaveEdit sid) w) = localStorage w"
    by (rule save_edit_step(3) [OF t])
qed

theorem rename_session_witness:
  "trim (editingTitle listWorld) = ''Greetings'' \<and>
   length (chatSessions (step (SaveEdit ''1000'') listWorld)) = 2 \<and>
   chatSessions (step (SaveEdit ''1000'') listWorld) ! 0 = otherSession \<and>
   sess_title (chatSessions (step (SaveEdit ''1000'') listWorld) ! 1) = ''Greetings'' \<and>
   sess_messages (chatSessions (step (SaveEdit ''1000'') listWorld) ! 1) = [hiMessage, helloReply] \<and>
   chatSessions (step (SaveEdit ''1000'') (listWorld\<lparr>editingTitle := ''  ''\<rparr>)) =
     [otherSession, oneSession]"
proof -
  have t: "trim (editingTitle listWorld) = ''Greetings''"
    by (simp add: listWorld_fields string_eval)
  have e: "trim (editingTitle (listWorld\<lparr>editingTitle := ''  ''\<rparr>)) = []"
    by (simp add: string_eval)
  have i: "sess_id otherSession \<noteq> ''1000''" "sess_id oneSession = ''1000''"
    "sess_messages oneSession = [hiMessage, helloReply]"
    by (simp_all add: otherSession_def oneSession_def)
  note r = rename_session [of listWorld "''1000''"]
  from r t have l: "length (chatSessions (step (SaveEdit ''1000'') listWorld)) =
      length (chatSessions listWorld)"
    by simp
  from r t have a: "\<forall>i < length (chatSessions listWorld).
         sess_messages (chatSessions (step (SaveEdit ''1000'') listWorld) ! i) =
           sess_messages (chatSessions listWorld ! i) \<and>
         (sess_id (chatSessions listWorld ! i) = ''1000'' \<longrightarrow>
            sess_title (chatSessions (step (SaveEdit ''1000'') listWorld) ! i) = ''Greetings'') \<and>
         (sess_id (chatSessions listWorld ! i) \<noteq> ''1000'' \<longrightarrow>
            chatSessions (step (SaveEdit ''1000'') listWorld) ! i = chatSessions listWorld ! i)"
    by simp
  from a [rule_format, of 0] a [rule_format, of 1] i
  have p: "chatSessions (step (SaveEdit ''1000'') listWorld) ! 0 = otherSession"
    "sess_title (chatSessions (step (SaveEdit ''1000'') listWorld) ! 1) = ''Greetings''"
    "sess_messages (chatSessions (step (SaveEdit ''1000'') listWorld) ! 1) = [hiMessage, helloReply]"
    by (simp_all add: listWorld_fields)
  from rename_session [of "listWorld\<lparr>editingTitle := ''  ''\<rparr>" "''1000''"] e
  have n: "chatSessions (step (SaveEdit ''1000'') (listWorld\<lparr>editingTitle := ''  ''\<rparr>)) =
     chatSessions (listWorld\<lparr>editingTitle := ''  ''\<rparr>)"
    by simp
  show ?thesis
    using t l p n by (simp add: listWorld_fields)
qed

section \<open>Persistence round trip\<close>

lemma those_map_comp_Some:
  assumes "\<forall>x \<in> set xs. f (g x) = Some x"
  shows "those (map (f \<circ> g) xs) = Some xs"
  using assms by (induction xs) simp_all

lemma those_map_Some:
  assumes "\<forall>x \<in> set xs. f (g x) = Some x"
  shows "those (map f (map g xs)) = Some xs"
  using those_map_comp_Some [of xs f g] assms by simp

lemma citation_roundtrip: "citation_fromJSON (citation_toJSON c) = Some c"
  by (cases c) (simp add: citation_fromJSON_def citation_toJSON_def)

lemma role_roundtrip: "role_fromJSON (role_toJSON r) = Some r"
  by (cases r) (simp_all add: role_fromJSON_def role_toJSON_def)

lemma sources_roundtrip: "sources_fromJSON (message_toJSON m) = Some (msg_sources m)"
  by (cases "msg_sources m")
    (simp_all add: sources_fromJSON_def message_toJSON_def those_map_comp_Some citation_roundtrip)

lemma message_fields:
  "field ''id'' (message_toJSON m) = Some (JString (msg_id m))"
  "field ''role'' (message_toJSON m) = Some (role_toJSON (msg_role m))"
  "field ''content'' (message_toJSON m) = Some (JString (msg_content m))"
  "field ''timestamp'' (message_toJSON m) = Some (JString (toISOString (msg_timestamp m)))"
  by (simp_all add: message_toJSON_def)

lemma message_roundtrip:
  assumes "parseDate (toISOString (msg_timestamp m)) = Some (msg_timestamp m)"
  shows "message_revive parseDate (message_toJSON m) = Some m"
  using assms
  by (simp add: message_revive_def message_fields role_roundtrip sources_roundtrip newDate_def)

lemma session_fields:
  "field ''id'' (session_toJSON s) = Some (JString (sess_id s))"
  "field ''title'' (session_toJSON s) = Some (JString (sess_title s))"
  "field ''messages'' (session_toJSON s) = Some (JArray (map message_toJSON (sess_messages s)))"
  "field ''createdAt'' (session_toJSON s) = Some (JString (toISOString (sess_createdAt s)))"
  by (simp_all add: session_toJSON_def)

lemma session_roundtrip:
  assumes "parseDate (toISOString (sess_createdAt s)) = Some (sess_createdAt s)"
    and "\<forall>m \<in> set (sess_messages s). parseDate (toISOString (msg_timestamp m)) = Some (msg_timestamp m)"
  shows "session_revive parseDate (session_toJSON s) = Some s"
proof -
  have "those (map (message_revive parseDate) (map message_toJSON (sess_messages s))) =
        Some (sess_messages s)"
    using assms(2) by (intro those_map_Some) (simp add: message_roundtrip)
  then show ?thesis
    using assms(1) by (simp add: session_revive_def session_fields newDate_def del: map_map)
qed

lemma loadSessions_roundtrip:
  assumes "\<forall>t \<in> set (instants sessions). parseDate (toISOString t) = Some t"
  shows "loadSessions parseDate (JSON_stringify sessions) = Some sessions"
proof -
  have "\<forall>s \<in> set sessions. session_revive parseDate (session_toJSON s) = Some s"
    using assms by (auto simp add: instants_def intro!: session_roundtrip)
  then show ?thesis
    by (simp add: loadSessions_def JSON_stringify_def those_map_comp_Some)
qed

text \<open>
  C6. When the platform's date parser reads back the ISO string of every instant of the
  collection as that instant, loading what was stored for a collection gives the collection
  itself, citations and instants included, and mounting on that stored item starts from it.
\<close>

theorem persistence_roundtrip:
  "(\<forall>t \<in> set (instants sessions). parseDate (toISOString t) = Some t) \<longrightarrow>
     loadSessions parseDate (JSON_stringify sessions) = Some sessions \<and>
     mount parseDate (Some (JSON_stringify sessions)) =
       Some ((initialWorld (Some (JSON_stringify sessions)))\<lparr>chatSessions := sessions\<rparr>)"
proof (intro impI conjI)
  assume "\<forall>t \<in> set (instants sessions). parseDate (toISOString t) = Some t"
  then show l: "loadSessions parseDate (JSON_stringify sessions) = Some sessions"
    by (rule loadSessions_roundtrip)
  show "mount parseDate (Some (JSON_stringify sessions)) =
       Some ((initialWorld (Some (JSON_stringify sessions)))\<lparr>chatSessions := sessions\<rparr>)"
    by (simp add: mount_def l commit_def saveEffect_def initialWorld_def)
qed

lemma leap_day: "civil_from_days 19782 = (2024, 2, 29)"
  by code_simp

lemma padded:
  "pad 4 2024 = ''2024''" "pad 2 2 = ''02''" "pad 2 29 = ''29''" "pad 2 12 = ''12''"
  "pad 2 34 = ''34''" "pad 2 50 = ''50''" "pad 3 0 = ''000''" "pad 2 56 = ''56''"
  "pad 3 789 = ''789''"
  by code_simp+

lemma example_instants:
  "toISOString 1709210090000 = ''2024-02-29T12:34:50.000Z''"
  "toISOString 1709210096789 = ''2024-02-29T12:34:56.789Z''"
  unfolding toISOString_def Let_def by (simp_all add: leap_day padded)

theorem persistence_roundtrip_witness:
  "instants [citedSession] = [1709210090000, 1709210090000, 1709210096789] \<and>
   exampleParseDate (toISOString 1709210090000) = Some 1709210090000 \<and>
   exampleParseDate (toISOString 1709210096789) = Some 1709210096789 \<and>
   loadSessions exampleParseDate (JSON_stringify [citedSession]) = Some [citedSession]"
proof -
  have i: "instants [citedSession] = [1709210090000, 1709210090000, 1709210096789]"
    by (simp add: instants_def citedSession_def citedReply_def userMessage_def)
  have p: "exampleParseDate (toISOString 1709210090000) = Some 1709210090000"
    "exampleParseDate (toISOString 1709210096789) = Some 1709210096789"
    by (simp_all add: example_instants exampleParseDate_def)
  have "\<forall>t \<in> set (instants [citedSession]). exampleParseDate (toISOString t) = Some t"
    using p by (simp add: i)
  with persistence_roundtrip [of "[citedSession]" exampleParseDate]
  have "loadSessions exampleParseDate (JSON_stringify [citedSession]) = Some [citedSession]"
    by blast
  then show ?thesis using i p by simp
qed

section \<open>Executions of the component\<close>

lemmas handler_eval =
  handleSendMessage_def sendText_def handleSendMessage_settled_def settle_def
  handleDeleteSession_def confirmDeleteSession_def
  commit_def syncCondition_def syncEffect_def saveEffect_def truthy_def
  newSession_def userMessage_def assistantMessage_def Let_def

lemma toString_examples:
  "toString 1000 = ''1000''" "toString 2001 = ''2001''" "toString 3000 = ''3000''"
  "toString 5000 = ''5000''"
  by (simp_all add: toString.simps digitChar_def)

lemma trim_examples:
  "trim ''hi'' = ''hi''" "trim ''hello'' = ''hello''" "trim ''hey'' = ''hey''"
  by code_simp+

lemma greetedWorld_eq:
  "greetedWorld =
     \<lparr>messages = [hiMessage, helloReply], inputValue = [], isLoading = False,
      chatSessions = [oneSession], currentSessionId = Some ''1000'', editingSessionId = None,
      editingTitle = [], deleteDialogOpen = False, sessionToDelete = None,
      localStorage = Some (JSON_stringify [oneSession]), inflight = []\<rparr>"
  by (simp add: greetedWorld_def run_def initialWorld_def handler_eval toString_examples
      trim_examples helloResponse_def hiMessage_def helloReply_def oneSession_def)

lemma greetedWorld_fields:
  "messages greetedWorld = [hiMessage, helloReply]"
  "inputValue greetedWorld = []"
  "isLoading greetedWorld = False"
  "chatSessions greetedWorld = [oneSession]"
  "currentSessionId greetedWorld = Some ''1000''"
  "sessionToDelete greetedWorld = None"
  "localStorage greetedWorld = Some (JSON_stringify [oneSession])"
  "inflight greetedWorld = []"
  by (simp_all add: greetedWorld_eq)

section \<open>What is stored after a mutation\<close>

text \<open>
  The stored item follows the collection as long as the collection is not empty: the property
  is kept by every event.
\<close>

lemma stored_saveEffect: "stored (saveEffect w)"
  by (simp add: stored_def saveEffect_def)

lemma stored_commit:
  assumes "a \<or> stored w"
  shows "stored (commit a b w)"
proof (cases "b \<and> syncCondition (if a then saveEffect w else w)")
  case True
  then show ?thesis by (simp add: commit_def stored_saveEffect)
next
  case False
  then have "commit a b w = (if a then saveEffect w else w)"
    by (auto simp add: commit_def Let_def)
  then show ?thesis using assms by (auto simp add: stored_saveEffect)
qed

lemma stored_same:
  assumes "stored w" and "chatSessions w' = chatSessions w" and "localStorage w' = localStorage w"
  shows "stored w'"
  using assms by (simp add: stored_def)

lemma stored_step:
  assumes "stored w"
  shows "stored (step e w)"
proof (cases e)
  case (SendMessage messageText now)
  show ?thesis
  proof (cases "sendText messageText w = [] \<or> isLoading w")
    case True
    then show ?thesis using SendMessage assms by simp
  next
    case False
    then have h: "sendText messageText w \<noteq> []" "\<not> isLoading w" by simp_all
    have "stored (handleSendMessage messageText now w)" if "truthy (currentSessionId w)"
      using that assms by (intro stored_same [OF assms]) (simp_all add: handleSendMessage_accepted [OF h])
    then show ?thesis
      using SendMessage False by (auto intro!: stored_commit)
  qed
next
  case (ChatSettled i result now)
  have "stored (handleSendMessage_settled result now (settle i w))"
    by (intro stored_same [OF assms])
      (simp_all add: handleSendMessage_settled_def settle_def split: settled.split)
  then show ?thesis
    using ChatSettled assms by (auto intro!: stored_commit)
next
  case (ActionClick action q now)
  have "stored (handleActionResponse action q now w)"
    by (intro stored_same [OF assms]) (simp_all add: handleActionResponse_def)
  then show ?thesis
    using ActionClick by (auto intro!: stored_commit simp del: commit_none)
next
  case (ActionSettled i result now)
  have "stored (handleActionResponse_settled result now (settle i w))"
    by (intro stored_same [OF assms])
      (simp_all add: handleActionResponse_settled_def settle_def split: settled.split)
  then show ?thesis
    using ActionSettled assms by (auto intro!: stored_commit)
next
  case (SelectSession i)
  have "stored (selectSession i w)"
    by (intro stored_same [OF assms]) (simp_all add: selectSession_def)
  then show ?thesis
    using SelectSession by (auto intro!: stored_commit simp del: commit_none)
next
  case ReturnHome
  have "stored (handleReturnHome w)"
    by (intro stored_same [OF assms]) (simp_all add: handleReturnHome_def)
  then show ?thesis
    using ReturnHome by (auto intro!: stored_commit)
next
  case (SaveEdit sid)
  have "stored (handleSaveEdit sid w)" if "trim (editingTitle w) = []"
    using that by (intro stored_same [OF assms]) (simp_all add: handleSaveEdit_def)
  then show ?thesis
    using SaveEdit by (auto intro!: stored_commit simp del: commit_none)
next
  case ConfirmDelete
  have "stored (confirmDeleteSession w)" if "\<not> truthy (sessionToDelete w)"
    using that by (intro stored_same [OF assms]) (simp_all add: confirmDeleteSession_def)
  then show ?thesis
    using ConfirmDelete by (auto intro!: stored_commit simp del: commit_none)
qed (use assms in \<open>simp_all add: stored_def handleStartEdit_def handleCancelEdit_def
      handleDeleteSession_def cancelDelete_def\<close>)

lemma stored_run: "stored w \<Longrightarrow> stored (run events w)"
  unfolding run_def by (induction events arbitrary: w) (simp_all add: stored_step)

lemma after_last_delete:
  "chatSessions (run [RequestDelete ''1000'', ConfirmDelete] greetedWorld) = []"
  "localStorage (run [RequestDelete ''1000'', ConfirmDelete] greetedWorld) =
     Some (JSON_stringify [oneSession])"
proof -
  have i: "sess_id oneSession = ''1000''"
    by (simp add: oneSession_def)
  show "chatSessions (run [RequestDelete ''1000'', ConfirmDelete] greetedWorld) = []"
    by (simp add: greetedWorld_eq run_def handler_eval i)
  show "localStorage (run [RequestDelete ''1000'', ConfirmDelete] greetedWorld) =
     Some (JSON_stringify [oneSession])"
    by (simp add: greetedWorld_eq run_def handler_eval i)
qed

text \<open>
  C1, at the deletion of the last session. After the first conversation the collection holds the
  one session and the stored item is its serialization. The user deletes that session: the
  collection is empty, and the stored item is still the serialization of the deleted session,
  which is not the serialization of the empty collection.
\<close>

theorem delete_last_session_not_persisted:
  "chatSessions greetedWorld = [oneSession] \<and>
   localStorage greetedWorld = Some (JSON_stringify [oneSession]) \<and>
   chatSessions (run [RequestDelete ''1000'', ConfirmDelete] greetedWorld) = [] \<and>
   localStorage (run [RequestDelete ''1000'', ConfirmDelete] greetedWorld) =
     Some (JSON_stringify [oneSession]) \<and>
   JSON_stringify [oneSession] \<noteq> JSON_stringify []"
  using after_last_delete by (simp add: greetedWorld_fields JSON_stringify_def)

text \<open>The next start of the component loads the deleted session back.\<close>

lemma epoch_instants:
  "toISOString 1000 = ''1970-01-01T00:00:01.000Z''"
  "toISOString 2000 = ''1970-01-01T00:00:02.000Z''"
proof -
  have c: "civil_from_days 0 = (1970, 1, 1)"
    by code_simp
  have p: "pad 4 1970 = ''1970''" "pad 2 (Suc 0) = ''01''" "pad 2 0 = ''00''" "pad 2 2 = ''02''"
    "pad 3 0 = ''000''"
    by code_simp+
  show "toISOString 1000 = ''1970-01-01T00:00:01.000Z''"
    unfolding toISOString_def Let_def by (simp add: c p)
  show "toISOString 2000 = ''1970-01-01T00:00:02.000Z''"
    unfolding toISOString_def Let_def by (simp add: c p)
qed

lemma deleted_session_comes_back:
  "mount epochParseDate (localStorage (run [RequestDelete ''1000'', ConfirmDelete] greetedWorld)) =
     Some ((initialWorld (Some (JSON_stringify [oneSession])))\<lparr>chatSessions := [oneSession]\<rparr>)"
proof -
  have "instants [oneSession] = [1000, 1000, 2000]"
    by (simp add: instants_def oneSession_def hiMessage_def helloReply_def)
  then have "\<forall>t \<in> set (instants [oneSession]). epochParseDate (toISOString t) = Some t"
    by (simp add: epoch_instants epochParseDate_def)
  then have "loadSessions epochParseDate (JSON_stringify [oneSession]) = Some [oneSession]"
    by (rule loadSessions_roundtrip)
  then show ?thesis
    using after_last_delete
    by (simp add: mount_def commit_def saveEffect_def initialWorld_def)
qed

section \<open>Identifiers\<close>

lemma hi_reply_template_simple:
  "isSimpleChat [hiMessage, helloReply, insufficientDataMessage action now]"
  by (rule only_user_message_hi [of _ hiMessage])
    (simp_all add: hiMessage_def helloReply_def insufficientDataMessage_def)

text \<open>
  C4, at two clicks in the same millisecond. After the first conversation the user clicks two
  quick actions while \<^verbatim>\<open>Date.now()\<close> returns 3000 for both: the two messages that are appended
  carry the identifier \<open>3000\<close>, in the displayed list and in the session. In the same way a
  message sent in the millisecond after the reply arrived at 2000 carries the reply's \<open>2001\<close>.
\<close>

theorem same_millisecond_same_id:
  "map msg_id (messages (run [ActionClick ''feasibility'' ''Hello'' 3000,
                                ActionClick ''case_study'' ''Hello'' 3000] greetedWorld)) =
     [''1000'', ''2001'', ''3000'', ''3000''] \<and>
   map (map msg_id \<circ> sess_messages)
     (chatSessions (run [ActionClick ''feasibility'' ''Hello'' 3000,
                         ActionClick ''case_study'' ''Hello'' 3000] greetedWorld)) =
     [[''1000'', ''2001'', ''3000'', ''3000'']] \<and>
   \<not> distinct [''1000'', ''2001'', ''3000'', ''3000''] \<and>
   map msg_id (messages (run [InputChange ''hello'', SendMessage None 2001] greetedWorld)) =
     [''1000'', ''2001'', ''2001'']"
proof -
  let ?w1 = "step (ActionClick ''feasibility'' ''Hello'' 3000) greetedWorld"
  have s0: "isSimpleChat (messages greetedWorld)"
    by (simp add: greetedWorld_fields hi_hello_simple)
  have w1: "?w1 = greetedWorld
      \<lparr>messages := [hiMessage, helloReply, insufficientDataMessage ''feasibility'' 3000],
       chatSessions := [oneSession\<lparr>sess_messages :=
          [hiMessage, helloReply, insufficientDataMessage ''feasibility'' 3000]\<rparr>],
       localStorage := Some (JSON_stringify [oneSession\<lparr>sess_messages :=
          [hiMessage, helloReply, insufficientDataMessage ''feasibility'' 3000]\<rparr>])\<rparr>"
    unfolding action_click_insufficient [OF s0]
    by (simp add: greetedWorld_eq handler_eval oneSession_def)
  have s1: "isSimpleChat (messages ?w1)"
    unfolding w1 by (simp add: hi_reply_template_simple)
  have ids: "map msg_id [hiMessage, helloReply, insufficientDataMessage ''feasibility'' 3000,
                         insufficientDataMessage ''case_study'' 3000] =
             [''1000'', ''2001'', ''3000'', ''3000'']"
    by (simp add: hiMessage_def helloReply_def insufficientDataMessage_def toString_examples)
  have w2: "messages (step (ActionClick ''case_study'' ''Hello'' 3000) ?w1) =
              [hiMessage, helloReply, insufficientDataMessage ''feasibility'' 3000,
               insufficientDataMessage ''case_study'' 3000]"
    "map sess_messages (chatSessions (step (ActionClick ''case_study'' ''Hello'' 3000) ?w1)) =
              [[hiMessage, helloReply, insufficientDataMessage ''feasibility'' 3000,
               insufficientDataMessage ''case_study'' 3000]]"
    unfolding action_click_insufficient [OF s1] unfolding w1
    by (simp_all add: greetedWorld_eq handler_eval oneSession_def)
  have a: "map msg_id (messages (run [ActionClick ''feasibility'' ''Hello'' 3000,
                                ActionClick ''case_study'' ''Hello'' 3000] greetedWorld)) =
     [''1000'', ''2001'', ''3000'', ''3000'']"
    unfolding run_def foldl.simps w2 by (rule ids)
  have "map (map msg_id) (map sess_messages
     (chatSessions (run [ActionClick ''feasibility'' ''Hello'' 3000,
                         ActionClick ''case_study'' ''Hello'' 3000] greetedWorld))) =
     [[''1000'', ''2001'', ''3000'', ''3000'']]"
    unfolding run_def foldl.simps w2 using ids by simp
  then have b: "map (map msg_id \<circ> sess_messages)
     (chatSessions (run [ActionClick ''feasibility'' ''Hello'' 3000,
                         ActionClick ''case_study'' ''Hello'' 3000] greetedWorld)) =
     [[''1000'', ''2001'', ''3000'', ''3000'']]"
    by simp
  have c: "map msg_id (messages (run [InputChange ''hello'', SendMessage None 2001] greetedWorld)) =
     [''1000'', ''2001'', ''2001'']"
    by (simp add: greetedWorld_eq run_def handler_eval trim_examples toString_examples
        hiMessage_def helloReply_def)
  show ?thesis
    using a b c by simp
qed

lemma sameTickWorld_eq:
  "sameTickWorld =
     \<lparr>messages = [], inputValue = [], isLoading = False,
      chatSessions =
        [\<lparr>sess_id = ''1000'', sess_title = ''a'',
          sess_messages = [userMessage ''a'' 1000, assistantMessage helloResponse 1000],
          sess_createdAt = 1000\<rparr>],
      currentSessionId = None, editingSessionId = None,
      editingTitle = [], deleteDialogOpen = False, sessionToDelete = None,
      localStorage = Some (JSON_stringify
        [\<lparr>sess_id = ''1000'', sess_title = ''a'',
          sess_messages = [userMessage ''a'' 1000, assistantMessage helloResponse 1000],
          sess_createdAt = 1000\<rparr>]),
      inflight = []\<rparr>"
proof -
  have t: "trim ''a'' = ''a''"
    by code_simp
  show ?thesis
    by (simp add: sameTickWorld_def run_def initialWorld_def handler_eval handleReturnHome_def
        toString_examples t)
qed

text \<open>
  C5, at a first message sent in the millisecond in which an existing session was created. A
  conversation \<open>a\<close> is begun and answered while \<^verbatim>\<open>Date.now()\<close> returns 1000, and the user
  returns to the home state: the collection holds the session \<open>1000\<close> with the messages \<open>a\<close>
  and \<open>Hello\<close>, and no session is active. The user sends \<open>b\<close> while the clock still returns
  1000. One session titled \<open>b\<close> is put in front and becomes active, and the session that was
  there, which carries the same identifier, has lost its two messages for the new one.
\<close>

theorem first_message_overwrites_same_id:
  "map sess_title (chatSessions sameTickWorld) = [''a''] \<and>
   map (map msg_content \<circ> sess_messages) (chatSessions sameTickWorld) = [[''a'', ''Hello'']] \<and>
   currentSessionId sameTickWorld = None \<and>
   isLoading sameTickWorld = False \<and>
   map sess_id (chatSessions (run [InputChange ''b'', SendMessage None 1000] sameTickWorld)) =
     [''1000'', ''1000''] \<and>
   map sess_title (chatSessions (run [InputChange ''b'', SendMessage None 1000] sameTickWorld)) =
     [''b'', ''a''] \<and>
   map (map msg_content \<circ> sess_messages)
     (chatSessions (run [InputChange ''b'', SendMessage None 1000] sameTickWorld)) =
     [[''b''], [''b'']] \<and>
   currentSessionId (run [InputChange ''b'', SendMessage None 1000] sameTickWorld) = Some ''1000''"
proof -
  have t: "trim ''b'' = ''b''"
    by code_simp
  have r: "chatSessions (run [InputChange ''b'', SendMessage None 1000] sameTickWorld) =
      [\<lparr>sess_id = ''1000'', sess_title = ''b'', sess_messages = [userMessage ''b'' 1000],
        sess_createdAt = 1000\<rparr>,
       \<lparr>sess_id = ''1000'', sess_title = ''a'', sess_messages = [userMessage ''b'' 1000],
        sess_createdAt = 1000\<rparr>]"
    "currentSessionId (run [InputChange ''b'', SendMessage None 1000] sameTickWorld) = Some ''1000''"
    by (simp_all add: sameTickWorld_eq run_def handler_eval toString_examples t)
  show ?thesis
    unfolding r
    by (simp add: sameTickWorld_eq userMessage_def assistantMessage_def helloResponse_def)
qed

section \<open>Sends in flight\<close>

lemma hi_hello_texts_simple: "isSimpleChat [hiMessage, helloReply, helloMessage]"
  by code_simp

text \<open>
  C7, at a quick action clicked while a send is pending. After the first conversation the user
  sends \<open>hello\<close>: the busy flag is set and one chat call is pending. The user clicks a quick
  action on the earlier reply; the gate finds the context insufficient, appends its message and
  clears the busy flag, while the chat call is still pending. The user then sends \<open>hey\<close>: the
  send is accepted, and two chat calls are pending on the one conversation.
\<close>

theorem second_send_while_pending:
  "inflight (run [InputChange ''hello'', SendMessage None 3000] greetedWorld) =
     [ChatCall ''hello'' [hiMessage, helloReply]] \<and>
   isLoading (run [InputChange ''hello'', SendMessage None 3000] greetedWorld) \<and>
   inflight (run [InputChange ''hello'', SendMessage None 3000,
                  ActionClick ''feasibility'' ''Hello'' 4000] greetedWorld) =
     [ChatCall ''hello'' [hiMessage, helloReply]] \<and>
   \<not> isLoading (run [InputChange ''hello'', SendMessage None 3000,
                      ActionClick ''feasibility'' ''Hello'' 4000] greetedWorld) \<and>
   inflight (run [InputChange ''hello'', SendMessage None 3000,
                  ActionClick ''feasibility'' ''Hello'' 4000,
                  InputChange ''hey'', SendMessage None 5000] greetedWorld) =
     [ChatCall ''hello'' [hiMessage, helloReply],
      ChatCall ''hey'' [hiMessage, helloReply, helloMessage,
                        insufficientDataMessage ''feasibility'' 4000]] \<and>
   map msg_content (messages (run [InputChange ''hello'', SendMessage None 3000,
                  ActionClick ''feasibility'' ''Hello'' 4000,
                  InputChange ''hey'', SendMessage None 5000] greetedWorld)) =
     [''hi'', ''Hello'', ''hello'', msg_content (insufficientDataMessage ''feasibility'' 4000), ''hey'']"
proof -
  let ?w2 = "run [InputChange ''hello'', SendMessage None 3000] greetedWorld"
  have w2: "messages ?w2 = [hiMessage, helloReply, helloMessage]"
    "inflight ?w2 = [ChatCall ''hello'' [hiMessage, helloReply]]"
    "isLoading ?w2" "currentSessionId ?w2 = Some ''1000''" "inputValue ?w2 = []"
    by (simp_all add: greetedWorld_eq run_def handler_eval trim_examples toString_examples
        helloMessage_def)
  have s: "isSimpleChat (messages ?w2)"
    by (simp add: w2 hi_hello_texts_simple)
  let ?w3 = "step (ActionClick ''feasibility'' ''Hello'' 4000) ?w2"
  have w3: "messages ?w3 = [hiMessage, helloReply, helloMessage,
                            insufficientDataMessage ''feasibility'' 4000]"
    "inflight ?w3 = [ChatCall ''hello'' [hiMessage, helloReply]]"
    "\<not> isLoading ?w3" "currentSessionId ?w3 = Some ''1000''"
    unfolding action_click_insufficient [OF s] by (simp_all add: w2 del: step.simps)
  have r3: "run [InputChange ''hello'', SendMessage None 3000,
                 ActionClick ''feasibility'' ''Hello'' 4000] greetedWorld = ?w3"
    by (simp add: run_def del: step.simps)
  let ?w4 = "step (InputChange ''hey'') ?w3"
  have i: "?w4 = ?w3\<lparr>inputValue := ''hey''\<rparr>"
    by (simp only: step.simps)
  have w4: "messages ?w4 = [hiMessage, helloReply, helloMessage,
                            insufficientDataMessage ''feasibility'' 4000]"
    "inflight ?w4 = [ChatCall ''hello'' [hiMessage, helloReply]]" "\<not> isLoading ?w4"
    "inputValue ?w4 = ''hey''" "currentSessionId ?w4 = Some ''1000''"
    unfolding i using w3 by (simp_all del: step.simps)
  have t: "sendText None ?w4 = ''hey''"
    unfolding sendText_def w4 by (simp add: trim_examples del: step.simps)
  have r5: "run [InputChange ''hello'', SendMessage None 3000,
                 ActionClick ''feasibility'' ''Hello'' 4000,
                 InputChange ''hey'', SendMessage None 5000] greetedWorld =
            step (SendMessage None 5000) ?w4"
    by (simp add: run_def del: step.simps)
  have a: "handleSendMessage None 5000 ?w4 =
     ?w4\<lparr>messages := messages ?w4 @ [userMessage ''hey'' 5000],
          inputValue := [], isLoading := True,
          inflight := inflight ?w4 @ [ChatCall ''hey'' (messages ?w4)]\<rparr>"
    using handleSendMessage_accepted [of None ?w4 5000] t w4
    by (simp add: truthy_def del: step.simps)
  have b: "step (SendMessage None 5000) ?w4 = commit False True (handleSendMessage None 5000 ?w4)"
    unfolding step.simps(2) [of None 5000 ?w4] t using w4
    by (simp add: truthy_def del: step.simps)
  have w5: "inflight (step (SendMessage None 5000) ?w4) =
      [ChatCall ''hello'' [hiMessage, helloReply],
       ChatCall ''hey'' [hiMessage, helloReply, helloMessage,
                         insufficientDataMessage ''feasibility'' 4000]]"
    "messages (step (SendMessage None 5000) ?w4) =
      [hiMessage, helloReply, helloMessage, insufficientDataMessage ''feasibility'' 4000,
       userMessage ''hey'' 5000]"
    unfolding b a by (simp_all add: w4 del: step.simps)
  show ?thesis
    unfolding r5 r3 w5 using w2 w3
    by (simp add: hiMessage_def helloReply_def helloMessage_def userMessage_def del: step.simps)
qed

end
